theory Spec2Isabelle
  imports Complex_Main
begin

section \<open>SenseBridge: the realtime session hook, its codec and the mode switch\<close>

text \<open>
  A shallow embedding of \<^verbatim>\<open>src/hooks/useGeminiLive.ts\<close> (the hook \<^verbatim>\<open>useGeminiLive\<close>:
  \<^verbatim>\<open>cleanup\<close>, \<^verbatim>\<open>connect\<close>, the \<^verbatim>\<open>onmessage\<close> callback, \<^verbatim>\<open>sendMessage\<close>), of
  \<^verbatim>\<open>getSystemInstructionForMode\<close> and the table \<^verbatim>\<open>MODES\<close> in
  \<^verbatim>\<open>src/components/ControlPanel.tsx\<close>, and of \<^verbatim>\<open>handleModeChange\<close> in \<^verbatim>\<open>src/App.tsx\<close>.

  Conventions of the embedding.
  \<^item> A React ref or state cell is a field of the record \<open>hook_state\<close>; a handler is a
    function from the state before to the state after.
  \<^item> Every call that leaves the hook (browser, SDK, the callbacks passed by the shell) is
    appended to the field \<open>effects\<close>, in program order.
  \<^item> A JavaScript \<^verbatim>\<open>number\<close> that carries a time or a sample is a \<open>real\<close>: rounding of
    double arithmetic is not modelled.
  \<^item> An object (audio context, buffer source, session, track) is a natural number, its
    identity; \<^verbatim>\<open>null\<close> and \<^verbatim>\<open>undefined\<close> are \<open>None\<close>.
  \<^item> An \<^verbatim>\<open>async\<close> handler runs to its end before the next event is delivered; a
    rejected promise is the outcome \<open>Rejected\<close>, with the writes done before the throw kept.
\<close>

subsection \<open>JavaScript values\<close>

datatype js_error = JsError (message: "string option")

datatype outcome = Resolved | Rejected js_error

text \<open>Truthiness of a \<^verbatim>\<open>string | undefined\<close>: \<^verbatim>\<open>undefined\<close> and \<^verbatim>\<open>""\<close> are falsy.\<close>

definition truthy :: "string option \<Rightarrow> bool" where
  "truthy v = (case v of None \<Rightarrow> False | Some s \<Rightarrow> s \<noteq> [])"

text \<open>\<^verbatim>\<open>v || d\<close> on a \<^verbatim>\<open>string | undefined\<close>.\<close>

definition or_else :: "string option \<Rightarrow> string \<Rightarrow> string" where
  "or_else v d = (case v of None \<Rightarrow> d | Some s \<Rightarrow> if s \<noteq> [] then s else d)"

type_synonym byte = nat

subsection \<open>Audio codec utilities\<close>

text \<open>
  Modelled from the spec: the module \<^verbatim>\<open>src/utils/audio\<close> (\<^verbatim>\<open>base64ToUint8Array\<close>,
  \<^verbatim>\<open>createPcmBlob\<close>, \<^verbatim>\<open>decodeAudioData\<close>) is imported by the hook and is not among the
  sources. The transport text encoding is base64 (section 6 of the specification); the
  two directions below are the standard alphabet with \<^verbatim>\<open>=\<close> padding. A byte is a
  natural number below 256.
\<close>

definition b64_char :: "nat \<Rightarrow> char" where
  "b64_char n =
     (if n < 26 then char_of (n + 65)
      else if n < 52 then char_of (n + 71)
      else if n < 62 then char_of (n - 4)
      else if n = 62 then CHR ''+''
      else CHR ''/'')"

text \<open>Modelled from the spec: the value of a character of the base64 alphabet.\<close>

definition b64_value :: "char \<Rightarrow> nat option" where
  "b64_value c =
     (let k = (of_char c :: nat) in
      if 65 \<le> k \<and> k \<le> 90 then Some (k - 65)
      else if 97 \<le> k \<and> k \<le> 122 then Some (k - 71)
      else if 48 \<le> k \<and> k \<le> 57 then Some (k + 4)
      else if k = 43 then Some 62
      else if k = 47 then Some 63
      else None)"

text \<open>Modelled from the spec: bytes to base64 text, three bytes to four characters.\<close>

fun bytesToBase64 :: "byte list \<Rightarrow> string" where
  "bytesToBase64 (a # b # c # rest) =
     b64_char (a div 4) # b64_char ((a mod 4) * 16 + b div 16) #
     b64_char ((b mod 16) * 4 + c div 64) # b64_char (c mod 64) # bytesToBase64 rest"
| "bytesToBase64 [a, b] =
     [b64_char (a div 4), b64_char ((a mod 4) * 16 + b div 16), b64_char ((b mod 16) * 4), CHR ''='']"
| "bytesToBase64 [a] =
     [b64_char (a div 4), b64_char ((a mod 4) * 16), CHR ''='', CHR ''='']"
| "bytesToBase64 [] = []"

text \<open>
  Modelled from the spec: four characters to three bytes, and the last four characters
  of a text, which may end in one or two \<^verbatim>\<open>=\<close>, to one, two or three bytes.
\<close>

definition decode_quartet :: "char \<Rightarrow> char \<Rightarrow> char \<Rightarrow> char \<Rightarrow> byte list option" where
  "decode_quartet c0 c1 c2 c3 =
     (case (b64_value c0, b64_value c1, b64_value c2, b64_value c3) of
        (Some v0, Some v1, Some v2, Some v3) \<Rightarrow>
          Some [v0 * 4 + v1 div 16, (v1 mod 16) * 16 + v2 div 4, (v2 mod 4) * 64 + v3]
      | _ \<Rightarrow> None)"

definition decode_final :: "char \<Rightarrow> char \<Rightarrow> char \<Rightarrow> char \<Rightarrow> byte list option" where
  "decode_final c0 c1 c2 c3 =
     (if c3 = CHR ''='' then
        (if c2 = CHR ''='' then
           (case (b64_value c0, b64_value c1) of
              (Some v0, Some v1) \<Rightarrow> Some [v0 * 4 + v1 div 16]
            | _ \<Rightarrow> None)
         else
           (case (b64_value c0, b64_value c1, b64_value c2) of
              (Some v0, Some v1, Some v2) \<Rightarrow> Some [v0 * 4 + v1 div 16, (v1 mod 16) * 16 + v2 div 4]
            | _ \<Rightarrow> None))
      else decode_quartet c0 c1 c2 c3)"

text \<open>
  Modelled from the spec: base64 text to bytes. A character outside the alphabet, padding
  anywhere but at the end, or a length that is not a multiple of four, is an error.
\<close>

fun base64ToUint8Array :: "string \<Rightarrow> js_error + byte list" where
  "base64ToUint8Array (c0 # c1 # c2 # c3 # rest) =
     (case (if rest = [] then decode_final c0 c1 c2 c3 else decode_quartet c0 c1 c2 c3) of
        None \<Rightarrow> Inl (JsError (Some ''InvalidCharacterError''))
      | Some bs \<Rightarrow>
          (case base64ToUint8Array rest of
             Inl e \<Rightarrow> Inl e
           | Inr more \<Rightarrow> Inr (bs @ more)))"
| "base64ToUint8Array [] = Inr []"
| "base64ToUint8Array _ = Inl (JsError (Some ''InvalidCharacterError''))"

text \<open>
  Modelled from the spec: \<^verbatim>\<open>encodePcm\<close> (the source's \<^verbatim>\<open>createPcmBlob\<close>) "converts a
  normalized floating-point sample buffer (range [-1,1]) into 16-bit signed little-endian
  PCM, then into a transport-safe text encoding", reversible within 16-bit rounding
  error, the quantization step being 1/32768. So a sample is scaled by 32768, made an
  integer, and kept inside the 16-bit signed range: the largest sample, 1, scales to
  32768, one above the range, and is held at 32767, since a value that wrapped around
  would not come back within rounding error. The specification does not say how the
  scaled sample is made an integer; the direction is a parameter.
\<close>

datatype rounding = Down | Up | TowardZero | Nearest

definition to_integer :: "rounding \<Rightarrow> real \<Rightarrow> int" where
  "to_integer r y =
     (case r of
        Down \<Rightarrow> \<lfloor>y\<rfloor>
      | Up \<Rightarrow> \<lceil>y\<rceil>
      | TowardZero \<Rightarrow> (if 0 \<le> y then \<lfloor>y\<rfloor> else \<lceil>y\<rceil>)
      | Nearest \<Rightarrow> round y)"

definition floatToInt16 :: "rounding \<Rightarrow> real \<Rightarrow> int" where
  "floatToInt16 r x = max (- 32768) (min 32767 (to_integer r (x * 32768)))"

text \<open>
  Modelled from the spec: a 16-bit signed sample as two bytes, two's complement, low byte
  first, and back.
\<close>

definition int16ToBytes :: "int \<Rightarrow> byte list" where
  "int16ToBytes v = (let u = nat (v mod 65536) in [u mod 256, (u div 256) mod 256])"

definition bytesToInt16 :: "byte \<Rightarrow> byte \<Rightarrow> int" where
  "bytesToInt16 lo hi =
     (let u = lo + 256 * hi in if 32768 \<le> u then int u - 65536 else int u)"

text \<open>Modelled from the spec: \<^verbatim>\<open>encodePcm\<close>, samples to PCM bytes to base64 text.\<close>

definition encodePcm :: "rounding \<Rightarrow> real list \<Rightarrow> string" where
  "encodePcm r samples = bytesToBase64 (concat (map (\<lambda>x. int16ToBytes (floatToInt16 r x)) samples))"

record audio_buffer =
  channelData :: "real list"
  sampleRate :: nat

text \<open>The Web Audio attribute \<^verbatim>\<open>AudioBuffer.duration\<close>: frames over frames per second.\<close>

definition duration :: "audio_buffer \<Rightarrow> real" where
  "duration b = real (length (channelData b)) / real (sampleRate b)"

text \<open>
  Modelled from the spec: the samples of a sequence of PCM bytes, each 16-bit value over
  32768.
\<close>

fun pcm16Samples :: "byte list \<Rightarrow> real list" where
  "pcm16Samples (lo # hi # rest) = real_of_int (bytesToInt16 lo hi) / 32768 # pcm16Samples rest"
| "pcm16Samples _ = []"

text \<open>
  Modelled from the spec: \<^verbatim>\<open>decodeAudio(bytes, sampleRate)\<close> (the source's
  \<^verbatim>\<open>decodeAudioData\<close>, which also takes the audio context that allocates the buffer)
  "interprets a byte sequence as 16-bit signed PCM at the given sample rate" and "fails
  with DecodeError on malformed/truncated input (odd byte length, empty input)".
\<close>

definition decodeAudioData :: "byte list \<Rightarrow> nat \<Rightarrow> js_error + audio_buffer" where
  "decodeAudioData bytes rate =
     (if bytes = [] \<or> odd (length bytes) then Inl (JsError (Some ''DecodeError''))
      else Inr \<lparr>channelData = pcm16Samples bytes, sampleRate = rate\<rparr>)"

text \<open>
  Modelled from the spec: \<^verbatim>\<open>decodePcm\<close>, the inverse direction of \<^verbatim>\<open>encodePcm\<close>: the two
  steps the hook applies to an inbound payload, in its order.
\<close>

definition decodePcm :: "string \<Rightarrow> nat \<Rightarrow> js_error + audio_buffer" where
  "decodePcm base64Audio rate =
     (case base64ToUint8Array base64Audio of
        Inl e \<Rightarrow> Inl e
      | Inr audioBytes \<Rightarrow> decodeAudioData audioBytes rate)"

subsection \<open>The state of the hook\<close>

text \<open>
  The SDK's \<^verbatim>\<open>Blob\<close>, \<^verbatim>\<open>Part\<close>, \<^verbatim>\<open>Content\<close>, \<^verbatim>\<open>LiveServerContent\<close> and
  \<^verbatim>\<open>LiveServerMessage\<close>, with the fields the hook reads. Every field is optional, the
  list \<^verbatim>\<open>parts\<close> of a model turn included.
\<close>

record blob =
  mimeType :: "string option"
  data :: "string option"

record part =
  inlineData :: "blob option"

record content =
  parts :: "part list option"

record live_server_content =
  modelTurn :: "content option"
  interrupted :: "bool option"

record live_server_message =
  serverContent :: "live_server_content option"

text \<open>What \<^verbatim>\<open>sendRealtimeInput\<close> is given: \<^verbatim>\<open>{ media }\<close> or \<^verbatim>\<open>{ content: { parts: [{ text }] } }\<close>.\<close>

datatype realtime_input = Media blob | Content "string list"

text \<open>An \<^verbatim>\<open>AudioBufferSourceNode\<close>: its identity and the buffer it plays.\<close>

record buffer_source =
  source_id :: nat
  buffer :: audio_buffer

text \<open>A \<^verbatim>\<open>MediaStream\<close> is the list of its tracks (\<^verbatim>\<open>getTracks()\<close>).\<close>

type_synonym media_stream = "nat list"

datatype effect =
    ConsoleLog string
  | ConsoleError js_error
  | NewAudioContext nat nat
  | GetUserMedia
  | SetInterval nat nat
  | ClearInterval nat
  | SessionClose nat
  | SendRealtimeInput nat realtime_input
  | SourceStart nat real
  | SourceStop nat
  | TrackStop nat
  | ContextClose nat
  | OnConnectionStateChange bool
  | OnError string

text \<open>
  The refs and state cells of \<^verbatim>\<open>useGeminiLive\<close>, under their names. \<open>sourcesRef\<close> is a
  JavaScript \<^verbatim>\<open>Set\<close>: a duplicate-free list in insertion order, the order \<^verbatim>\<open>forEach\<close>
  visits. \<open>onError_given\<close> says whether the optional prop \<^verbatim>\<open>onError\<close> was passed.
  \<open>objectCount\<close> numbers the objects the hook creates, so that each has an identity.
\<close>

record hook_state =
  inputAudioContextRef :: "nat option"
  outputAudioContextRef :: "nat option"
  mediaStreamRef :: "media_stream option"
  nextStartTimeRef :: real
  sourcesRef :: "buffer_source list"
  sessionRef :: "nat option"
  videoIntervalRef :: "nat option"
  isConnected :: bool
  error :: "string option"
  volumeLevel :: real
  onError_given :: bool
  objectCount :: nat
  effects :: "effect list"

text \<open>The hook as \<^verbatim>\<open>useRef\<close> and \<^verbatim>\<open>useState\<close> initialise it.\<close>

definition initial_state :: "bool \<Rightarrow> hook_state" where
  "initial_state given =
     \<lparr>inputAudioContextRef = None, outputAudioContextRef = None, mediaStreamRef = None,
      nextStartTimeRef = 0, sourcesRef = [], sessionRef = None, videoIntervalRef = None,
      isConnected = False, error = None, volumeLevel = 0, onError_given = given,
      objectCount = 0, effects = []\<rparr>"

definition emit :: "effect list \<Rightarrow> hook_state \<Rightarrow> hook_state" where
  "emit es st = st\<lparr>effects := effects st @ es\<rparr>"

text \<open>The effects a handler added to those of the state it started from.\<close>

definition new_effects :: "hook_state \<Rightarrow> hook_state \<Rightarrow> effect list" where
  "new_effects before after = drop (length (effects before)) (effects after)"

definition INPUT_SAMPLE_RATE :: nat where
  "INPUT_SAMPLE_RATE = 16000"

definition OUTPUT_SAMPLE_RATE :: nat where
  "OUTPUT_SAMPLE_RATE = 24000"

definition FRAME_RATE :: nat where
  "FRAME_RATE = 2"

subsection \<open>cleanup (returned as disconnect)\<close>

text \<open>
  Lines 31 to 63. Each \<^verbatim>\<open>if (ref.current)\<close> is a case on the ref; the timer id is a
  number, so for it \<^verbatim>\<open>0\<close> is falsy as well.
\<close>

definition cleanup :: "hook_state \<Rightarrow> hook_state" where
  "cleanup st0 =
     (let st1 = (case videoIntervalRef st0 of
                   Some t \<Rightarrow>
                     if t \<noteq> 0 then (emit [ClearInterval t] st0)\<lparr>videoIntervalRef := None\<rparr>
                     else st0
                 | None \<Rightarrow> st0);
          st2 = (case sessionRef st1 of
                   Some s \<Rightarrow> (emit [SessionClose s] st1)\<lparr>sessionRef := None\<rparr>
                 | None \<Rightarrow> st1);
          st3 = (emit (map (\<lambda>source. SourceStop (source_id source)) (sourcesRef st2)) st2)
                  \<lparr>sourcesRef := []\<rparr>;
          st4 = (case mediaStreamRef st3 of
                   Some stream \<Rightarrow> (emit (map TrackStop stream) st3)\<lparr>mediaStreamRef := None\<rparr>
                 | None \<Rightarrow> st3);
          st5 = (case inputAudioContextRef st4 of
                   Some c \<Rightarrow> (emit [ContextClose c] st4)\<lparr>inputAudioContextRef := None\<rparr>
                 | None \<Rightarrow> st4);
          st6 = (case outputAudioContextRef st5 of
                   Some c \<Rightarrow> (emit [ContextClose c] st5)\<lparr>outputAudioContextRef := None\<rparr>
                 | None \<Rightarrow> st5)
      in (emit [OnConnectionStateChange False] st6)\<lparr>isConnected := False, volumeLevel := 0\<rparr>)"

subsection \<open>connect\<close>

text \<open>
  What the environment answers during one call of \<^verbatim>\<open>connect\<close>: the credential
  \<^verbatim>\<open>process.env.API_KEY\<close>, the result of awaiting \<^verbatim>\<open>getUserMedia\<close>, the result of
  awaiting the promise of \<^verbatim>\<open>ai.live.connect\<close> (a session, or the rejection of the
  handshake), and the id \<^verbatim>\<open>setInterval\<close> returns.
\<close>

record connect_env =
  API_KEY :: "string option"
  getUserMedia :: "js_error + media_stream"
  liveConnect :: "js_error + nat"
  setIntervalId :: nat

text \<open>
  The \<^verbatim>\<open>onopen\<close> callback, lines 102 to 127, with \<^verbatim>\<open>startVideoStream\<close> (lines 183 to
  210) up to the timer it installs, every \<^verbatim>\<open>1000 / FRAME_RATE\<close> milliseconds. The bodies
  of the audio and video loops send media only and are not part of the model.
\<close>

definition onopen :: "connect_env \<Rightarrow> hook_state \<Rightarrow> hook_state" where
  "onopen env st =
     (emit [ConsoleLog ''Gemini Live Session Opened'', OnConnectionStateChange True,
            SetInterval (setIntervalId env) (1000 div FRAME_RATE)] st)
       \<lparr>isConnected := True, videoIntervalRef := Some (setIntervalId env)\<rparr>"

text \<open>
  The body of the \<^verbatim>\<open>try\<close>, lines 67 to 172: \<open>None\<close> when it reaches its end, \<open>Some err\<close>
  when it throws, with the state as the throw leaves it.
\<close>

definition connect_try :: "connect_env \<Rightarrow> hook_state \<Rightarrow> js_error option \<times> hook_state" where
  "connect_try env st =
     (if \<not> truthy (API_KEY env) then (Some (JsError (Some ''API Key is missing'')), st)
      else
        let inCtx = objectCount st;
            outCtx = objectCount st + 1;
            st1 = (emit [NewAudioContext inCtx INPUT_SAMPLE_RATE,
                         NewAudioContext outCtx OUTPUT_SAMPLE_RATE, GetUserMedia] st)
                    \<lparr>inputAudioContextRef := Some inCtx, outputAudioContextRef := Some outCtx,
                     objectCount := objectCount st + 2\<rparr>
        in (case getUserMedia env of
              Inl err \<Rightarrow> (Some err, st1)
            | Inr stream \<Rightarrow>
                let st2 = st1\<lparr>mediaStreamRef := Some stream\<rparr> in
                (case liveConnect env of
                   Inl err \<Rightarrow> (Some err, st2)
                 | Inr session \<Rightarrow> (None, (onopen env st2)\<lparr>sessionRef := Some session\<rparr>))))"

text \<open>
  With the \<^verbatim>\<open>catch\<close>, lines 174 to 180: log, \<^verbatim>\<open>setError\<close>, \<^verbatim>\<open>onError\<close> if given, then
  \<^verbatim>\<open>cleanup()\<close>. The promise of \<^verbatim>\<open>connect\<close> itself always resolves.
\<close>

definition connect :: "connect_env \<Rightarrow> hook_state \<Rightarrow> hook_state" where
  "connect env st =
     (case connect_try env st of
        (None, st') \<Rightarrow> st'
      | (Some err, st') \<Rightarrow>
          let errorMessage = or_else (message err) ''Failed to start session'';
              st1 = (emit [ConsoleError err] st')\<lparr>error := Some errorMessage\<rparr>;
              st2 = (if onError_given st1 then emit [OnError errorMessage] st1 else st1)
          in cleanup st2)"

text \<open>The callbacks \<^verbatim>\<open>onclose\<close> and \<^verbatim>\<open>onerror\<close>, lines 158 to 168.\<close>

definition onclose :: "hook_state \<Rightarrow> hook_state" where
  "onclose st = cleanup (emit [ConsoleLog ''Gemini Live Session Closed''] st)"

definition onerror :: "js_error \<Rightarrow> hook_state \<Rightarrow> hook_state" where
  "onerror err st =
     (let errorMessage = ''Connection Error'';
          st1 = (emit [ConsoleError err] st)\<lparr>error := Some errorMessage\<rparr>;
          st2 = (if onError_given st1 then emit [OnError errorMessage] st1 else st1)
      in cleanup st2)"

subsection \<open>The onmessage callback\<close>

text \<open>
  \<^verbatim>\<open>message.serverContent?.modelTurn?.parts[0]?.inlineData?.data\<close>, line 130. No \<^verbatim>\<open>?.\<close>
  stands between \<^verbatim>\<open>parts\<close> and \<^verbatim>\<open>[0]\<close>: on a model turn that has no \<^verbatim>\<open>parts\<close> the
  expression throws a TypeError. On an empty list \<^verbatim>\<open>parts[0]\<close> is \<^verbatim>\<open>undefined\<close>.
\<close>

definition base64Audio_of :: "live_server_message \<Rightarrow> js_error + string option" where
  "base64Audio_of msg =
     (case serverContent msg of
        None \<Rightarrow> Inr None
      | Some sc \<Rightarrow>
          (case modelTurn sc of
             None \<Rightarrow> Inr None
           | Some turn \<Rightarrow>
               (case parts turn of
                  None \<Rightarrow> Inl (JsError (Some ''TypeError''))
                | Some [] \<Rightarrow> Inr None
                | Some (p # _) \<Rightarrow>
                    (case inlineData p of
                       None \<Rightarrow> Inr None
                     | Some b \<Rightarrow> Inr (data b)))))"

text \<open>\<^verbatim>\<open>message.serverContent?.interrupted\<close> as a condition, line 152.\<close>

definition interrupted_of :: "live_server_message \<Rightarrow> bool" where
  "interrupted_of msg =
     (case serverContent msg of
        None \<Rightarrow> False
      | Some sc \<Rightarrow> (case interrupted sc of None \<Rightarrow> False | Some b \<Rightarrow> b))"

text \<open>\<^verbatim>\<open>Set.prototype.add\<close>.\<close>

definition set_add :: "'a \<Rightarrow> 'a list \<Rightarrow> 'a list" where
  "set_add x xs = (if x \<in> set xs then xs else xs @ [x])"

text \<open>
  Lines 129 to 149, "Handle Audio Output". \<open>currentTime\<close> is what \<^verbatim>\<open>ctx.currentTime\<close>
  reads. A throw of line 130, a throw of \<^verbatim>\<open>base64ToUint8Array\<close> or a rejection of
  \<^verbatim>\<open>decodeAudioData\<close> leaves the handler there: no \<^verbatim>\<open>try\<close> encloses them.
\<close>

definition handleAudioOutput :: "real \<Rightarrow> live_server_message \<Rightarrow> hook_state \<Rightarrow> outcome \<times> hook_state" where
  "handleAudioOutput currentTime msg st =
     (case base64Audio_of msg of
        Inl err \<Rightarrow> (Rejected err, st)
      | Inr None \<Rightarrow> (Resolved, st)
      | Inr (Some base64Audio) \<Rightarrow>
          if base64Audio \<noteq> [] \<and> outputAudioContextRef st \<noteq> None then
            let st1 = st\<lparr>nextStartTimeRef := max (nextStartTimeRef st) currentTime\<rparr> in
            (case base64ToUint8Array base64Audio of
               Inl err \<Rightarrow> (Rejected err, st1)
             | Inr audioBytes \<Rightarrow>
                 (case decodeAudioData audioBytes OUTPUT_SAMPLE_RATE of
                    Inl err \<Rightarrow> (Rejected err, st1)
                  | Inr audioBuffer \<Rightarrow>
                      let source = \<lparr>source_id = objectCount st1, buffer = audioBuffer\<rparr>;
                          st2 = (emit [SourceStart (source_id source) (nextStartTimeRef st1)] st1)
                                  \<lparr>objectCount := objectCount st1 + 1\<rparr>;
                          st3 = st2\<lparr>nextStartTimeRef := nextStartTimeRef st2 + duration audioBuffer\<rparr>
                      in (Resolved, st3\<lparr>sourcesRef := set_add source (sourcesRef st3)\<rparr>)))
          else (Resolved, st))"

text \<open>Lines 151 to 156, "Handle Interruption".\<close>

definition handleInterruption :: "live_server_message \<Rightarrow> hook_state \<Rightarrow> hook_state" where
  "handleInterruption msg st =
     (if interrupted_of msg then
        (emit (map (\<lambda>s. SourceStop (source_id s)) (sourcesRef st)) st)
          \<lparr>sourcesRef := [], nextStartTimeRef := 0\<rparr>
      else st)"

definition onmessage :: "real \<Rightarrow> live_server_message \<Rightarrow> hook_state \<Rightarrow> outcome \<times> hook_state" where
  "onmessage currentTime msg st =
     (case handleAudioOutput currentTime msg st of
        (Rejected err, st1) \<Rightarrow> (Rejected err, st1)
      | (Resolved, st1) \<Rightarrow> (Resolved, handleInterruption msg st1))"

text \<open>The listener for \<^verbatim>\<open>ended\<close>, lines 142 to 144: \<^verbatim>\<open>Set.prototype.delete\<close>.\<close>

definition onended :: "buffer_source \<Rightarrow> hook_state \<Rightarrow> hook_state" where
  "onended source st = st\<lparr>sourcesRef := removeAll source (sourcesRef st)\<rparr>"

text \<open>
  Messages delivered one after another, each with the reading of the output clock at its
  arrival. A rejected handler keeps the writes it made; the next message is delivered all
  the same.
\<close>

fun onmessages :: "(real \<times> live_server_message) list \<Rightarrow> hook_state \<Rightarrow> hook_state" where
  "onmessages [] st = st"
| "onmessages ((currentTime, msg) # rest) st = onmessages rest (snd (onmessage currentTime msg st))"

text \<open>The start times passed to \<^verbatim>\<open>source.start\<close>, in the order of the calls.\<close>

fun start_times :: "effect list \<Rightarrow> real list" where
  "start_times [] = []"
| "start_times (SourceStart _ when # es) = when # start_times es"
| "start_times (_ # es) = start_times es"

subsection \<open>sendMessage\<close>

text \<open>Lines 212 to 218.\<close>

definition sendMessage :: "string \<Rightarrow> hook_state \<Rightarrow> hook_state" where
  "sendMessage text st =
     (case sessionRef st of
        Some session \<Rightarrow> emit [SendRealtimeInput session (Content [text])] st
      | None \<Rightarrow> st)"

text \<open>The inputs sent on the channel, in order, each with the session it went to.\<close>

fun sent :: "effect list \<Rightarrow> (nat \<times> realtime_input) list" where
  "sent [] = []"
| "sent (SendRealtimeInput session input # es) = (session, input) # sent es"
| "sent (_ # es) = sent es"

subsection \<open>The mode registry and the mode switch\<close>

text \<open>\<^verbatim>\<open>src/types.ts\<close>: the enum \<^verbatim>\<open>AppMode\<close> and the string each member stands for.\<close>

datatype AppMode = IDLE | NARRATION | OBJECT_FINDER | DOCUMENT_READER | TASK_GUIDANCE | WALKING_ASSIST

fun mode_string :: "AppMode \<Rightarrow> string" where
  "mode_string IDLE = ''IDLE''"
| "mode_string NARRATION = ''NARRATION''"
| "mode_string OBJECT_FINDER = ''OBJECT_FINDER''"
| "mode_string DOCUMENT_READER = ''DOCUMENT_READER''"
| "mode_string TASK_GUIDANCE = ''TASK_GUIDANCE''"
| "mode_string WALKING_ASSIST = ''WALKING_ASSIST''"

record ModeConfig =
  mode :: AppMode
  label :: string
  systemInstruction :: string
  icon :: string
  description :: string

text \<open>\<^verbatim>\<open>src/components/ControlPanel.tsx\<close>, lines 12 to 48.\<close>

definition MODES :: "ModeConfig list" where
  "MODES =
    [\<lparr>mode = NARRATION,
      label = ''Scene Narration'',
      systemInstruction = ''You are in Scene Narration Mode. Continuously and concisely describe what you see in the video feed. Mention safety hazards like obstacles, stairs, or traffic immediately.'',
      icon = ''Eye'',
      description = ''Real-time environment description''\<rparr>,
     \<lparr>mode = WALKING_ASSIST,
      label = ''Walking Assist'',
      systemInstruction = ''CRITICAL SAFETY MODE. You are a real-time navigation guide for a blind pedestrian. Your ONLY priority is preventing collisions and falls. \<newline>1. IMMEDIATE FRONTAL OBSTACLES: Prioritize detecting half-open doors, glass panels, poles, wires, or overhanging objects (head/chest level) directly in front. \<newline>2. GROUND HAZARDS: Scan the floor for obstacles, toys, uneven pavement, stairs (up/down), or wet spots. \<newline>3. DYNAMIC THREATS: Warn of approaching people, vehicles, or animals. \<newline>4. COMMUNICATION PROTOCOL: \<newline>   - IMPACT IMMINENT (< 1m): Shout 'STOP! [Obstacle]'. \<newline>   - CAUTION (< 3m): Say 'Caution, [Obstacle] ahead'. \<newline>   - DIRECTIONAL: Use clock-face (e.g., 'Bench at 2 o'clock') for things not directly in path. \<newline>   - CLEAR PATH: If walking and safe, briefly say 'Path clear' every 10 seconds. \<newline>5. Be concise. Do not describe scene aesthetics.'',
      icon = ''Footprints'',
      description = ''Obstacle detection & path safety''\<rparr>,
     \<lparr>mode = OBJECT_FINDER,
      label = ''Object Finder'',
      systemInstruction = ''You are in Object Finder Mode. The user will state an object they are looking for. Your goal is to find it in the video feed. If you see it, give specific directions like 'It is slightly to the left', 'Move forward', 'It is right in front of you'. If you don't see it, ask the user to pan the camera slowly. Be concise and directive.'',
      icon = ''Search'',
      description = ''Locate specific items nearby''\<rparr>,
     \<lparr>mode = DOCUMENT_READER,
      label = ''Document Reader'',
      systemInstruction = ''You are in Document Reader Mode. When a document is visible, read the text aloud. Summarize headers first, then read details if asked. Be precise with numbers and dates.'',
      icon = ''FileText'',
      description = ''Read labels, mail, and receipts''\<rparr>,
     \<lparr>mode = TASK_GUIDANCE,
      label = ''Task Guidance'',
      systemInstruction = ''You are in Task Guidance Mode. Ask the user what task they need help with (e.g., 'Make Tea'). Then break it down into small steps, verifying each step visually before moving on.'',
      icon = ''CheckSquare'',
      description = ''Step-by-step help for daily tasks''\<rparr>]"

text \<open>Lines 114 to 116: \<^verbatim>\<open>MODES.find(m => m.mode === mode)?.systemInstruction\<close>.\<close>

definition getSystemInstructionForMode :: "AppMode \<Rightarrow> string option" where
  "getSystemInstructionForMode m =
     (case find (\<lambda>c. mode c = m) MODES of
        None \<Rightarrow> None
      | Some c \<Rightarrow> Some (systemInstruction c))"

text \<open>
  \<^verbatim>\<open>String.prototype.replace\<close> with a string pattern replaces the first occurrence only;
  \<^verbatim>\<open>toLowerCase\<close> on the ASCII letters, the only ones the names of the modes have.
\<close>

fun replace_first :: "char \<Rightarrow> char \<Rightarrow> string \<Rightarrow> string" where
  "replace_first a b [] = []"
| "replace_first a b (c # cs) = (if c = a then b # cs else c # replace_first a b cs)"

definition lower_char :: "char \<Rightarrow> char" where
  "lower_char c =
     (let k = (of_char c :: nat) in if 65 \<le> k \<and> k \<le> 90 then char_of (k + 32) else c)"

definition toLowerCase :: "string \<Rightarrow> string" where
  "toLowerCase s = map lower_char s"

text \<open>
  The part of the shell's state the mode switch touches: the selected mode, the text of
  the screen-reader announcement, and the hook, whose \<open>isConnected\<close> the shell reads.
\<close>

record app_state =
  app_mode :: AppMode
  announcement :: string
  live :: hook_state

text \<open>\<^verbatim>\<open>src/App.tsx\<close>, lines 106 to 115.\<close>

definition handleModeChange :: "AppMode \<Rightarrow> app_state \<Rightarrow> app_state" where
  "handleModeChange newMode app =
     (let app1 = app\<lparr>app_mode := newMode\<rparr>;
          instruction = getSystemInstructionForMode newMode;
          app2 = app1\<lparr>announcement :=
                   ''Switched to '' @ toLowerCase (replace_first (CHR ''_'') (CHR '' '') (mode_string newMode))
                     @ '' mode.''\<rparr>
      in (case instruction of
            Some instr \<Rightarrow>
              if isConnected (live app2) \<and> instr \<noteq> [] then
                app2\<lparr>live := sendMessage
                   (''System Update: User switched to '' @ mode_string newMode @ ''. '' @ instr)
                   (live app2)\<rparr>
              else app2
          | None \<Rightarrow> app2))"

subsection \<open>Notions the properties are stated with\<close>

text \<open>
  The chunk a message carries: the buffer its payload decodes to, when the payload is
  there, is not the empty string, and decodes at the output rate.
\<close>

definition chunk_of :: "live_server_message \<Rightarrow> audio_buffer option" where
  "chunk_of msg =
     (case base64Audio_of msg of
        Inl _ \<Rightarrow> None
      | Inr None \<Rightarrow> None
      | Inr (Some base64Audio) \<Rightarrow>
          if base64Audio = [] then None
          else (case decodePcm base64Audio OUTPUT_SAMPLE_RATE of
                  Inl _ \<Rightarrow> None
                | Inr audioBuffer \<Rightarrow> Some audioBuffer))"

text \<open>
  The error with which the payload of a message fails to decode, when it is there, is
  not the empty string, and does not decode.
\<close>

definition decode_error_of :: "live_server_message \<Rightarrow> js_error option" where
  "decode_error_of msg =
     (case base64Audio_of msg of
        Inl _ \<Rightarrow> None
      | Inr None \<Rightarrow> None
      | Inr (Some base64Audio) \<Rightarrow>
          if base64Audio = [] then None
          else (case decodePcm base64Audio OUTPUT_SAMPLE_RATE of
                  Inl err \<Rightarrow> Some err
                | Inr _ \<Rightarrow> None))"

text \<open>
  For chunks given by arrival time and duration, from a cursor \<open>c\<close>: the start times
  \<open>max cursor arrival\<close>, and the cursor after them.
\<close>

fun schedule :: "real \<Rightarrow> (real \<times> real) list \<Rightarrow> real list" where
  "schedule c [] = []"
| "schedule c ((t, d) # rest) = max c t # schedule (max c t + d) rest"

fun cursor_after :: "real \<Rightarrow> (real \<times> real) list \<Rightarrow> real" where
  "cursor_after c [] = c"
| "cursor_after c ((t, d) # rest) = cursor_after (max c t + d) rest"

text \<open>Some occurrence of \<open>a\<close> comes before some occurrence of \<open>b\<close>.\<close>

fun precedes :: "'a \<Rightarrow> 'a \<Rightarrow> 'a list \<Rightarrow> bool" where
  "precedes a b [] = False"
| "precedes a b (x # xs) = ((x = a \<and> b \<in> set xs) \<or> precedes a b xs)"

text \<open>A call of \<^verbatim>\<open>console.log\<close> or \<^verbatim>\<open>console.error\<close>.\<close>

fun is_console :: "effect \<Rightarrow> bool" where
  "is_console (ConsoleLog _) = True"
| "is_console (ConsoleError _) = True"
| "is_console _ = False"

text \<open>The calls by which \<open>cleanup\<close> lets go of what the refs hold, in its order.\<close>

definition release_calls :: "hook_state \<Rightarrow> effect list" where
  "release_calls st =
     (case videoIntervalRef st of Some t \<Rightarrow> if t \<noteq> 0 then [ClearInterval t] else [] | None \<Rightarrow> [])
     @ (case sessionRef st of Some s \<Rightarrow> [SessionClose s] | None \<Rightarrow> [])
     @ map (\<lambda>source. SourceStop (source_id source)) (sourcesRef st)
     @ (case mediaStreamRef st of Some stream \<Rightarrow> map TrackStop stream | None \<Rightarrow> [])
     @ (case inputAudioContextRef st of Some c \<Rightarrow> [ContextClose c] | None \<Rightarrow> [])
     @ (case outputAudioContextRef st of Some c \<Rightarrow> [ContextClose c] | None \<Rightarrow> [])"

subsection \<open>Concrete environments, messages and states\<close>

definition granted_env :: connect_env where
  "granted_env =
     \<lparr>API_KEY = Some ''k'', getUserMedia = Inr [11], liveConnect = Inr 3, setIntervalId = 7\<rparr>"

definition denied_env :: connect_env where
  "denied_env =
     \<lparr>API_KEY = Some ''k'', getUserMedia = Inl (JsError (Some ''Permission denied'')),
      liveConnect = Inr 3, setIntervalId = 7\<rparr>"

definition refused_env :: connect_env where
  "refused_env =
     \<lparr>API_KEY = Some ''k'', getUserMedia = Inr [11], liveConnect = Inl (JsError None),
      setIntervalId = 7\<rparr>"

definition keyless_env :: connect_env where
  "keyless_env =
     \<lparr>API_KEY = None, getUserMedia = Inr [11], liveConnect = Inr 3, setIntervalId = 7\<rparr>"

text \<open>A message with one part that carries \<open>payload\<close>, and the given interruption flag.\<close>

definition audio_message :: "string \<Rightarrow> bool option \<Rightarrow> live_server_message" where
  "audio_message payload flag =
     \<lparr>serverContent = Some
        \<lparr>modelTurn = Some \<lparr>parts = Some [\<lparr>inlineData = Some \<lparr>mimeType = None, data = Some payload\<rparr>\<rparr>]\<rparr>,
         interrupted = flag\<rparr>\<rparr>"

text \<open>A message with no model turn, and the given interruption flag.\<close>

definition plain_message :: "bool option \<Rightarrow> live_server_message" where
  "plain_message flag = \<lparr>serverContent = Some \<lparr>modelTurn = None, interrupted = flag\<rparr>\<rparr>"

text \<open>A message whose model turn has no \<^verbatim>\<open>parts\<close>, and the given interruption flag.\<close>

definition partless_message :: "bool option \<Rightarrow> live_server_message" where
  "partless_message flag =
     \<lparr>serverContent = Some \<lparr>modelTurn = Some \<lparr>parts = None\<rparr>, interrupted = flag\<rparr>\<rparr>"

text \<open>The hook after a connect that succeeded.\<close>

definition connected_state :: hook_state where
  "connected_state = connect granted_env (initial_state True)"

text \<open>
  The payloads: three samples (six zero bytes), four samples (eight zero bytes), three
  bytes (an odd length), and a text that is not base64.
\<close>

definition three_samples :: string where
  "three_samples = ''AAAAAAAA''"

definition four_samples :: string where
  "four_samples = ''AAAAAAAAAAA=''"

definition odd_bytes :: string where
  "odd_bytes = ''AAAA''"

definition not_base64 :: string where
  "not_base64 = ''!!!!''"

text \<open>Silence of \<open>n\<close> samples at the output rate, and three chunks with their arrival times.\<close>

definition silence :: "nat \<Rightarrow> audio_buffer" where
  "silence n = \<lparr>channelData = replicate n 0, sampleRate = OUTPUT_SAMPLE_RATE\<rparr>"

definition example_chunks :: "(real \<times> live_server_message) list" where
  "example_chunks =
     [(0, audio_message three_samples None),
      (0, audio_message four_samples None),
      (1 / 10000, audio_message three_samples (Some False))]"

text \<open>The connected hook with one chunk scheduled and in the active set.\<close>

definition playing_state :: hook_state where
  "playing_state = snd (onmessage 0 (audio_message three_samples None) connected_state)"


section \<open>Properties\<close>

subsection \<open>The codec\<close>

lemma b64_value_char: "n < 64 \<Longrightarrow> b64_value (b64_char n) = Some n"
  by (auto simp: b64_value_def b64_char_def Let_def)

lemma of_char_b64_char: "n < 64 \<Longrightarrow> (of_char (b64_char n) :: nat) \<noteq> 61"
  by (auto simp: b64_char_def)

lemma b64_char_not_pad: "n < 64 \<Longrightarrow> b64_char n \<noteq> CHR ''=''"
  using of_char_b64_char[of n] by auto

lemma decode_quartet_enc:
  assumes "a < 256" "b < 256" "c < 256"
  shows "decode_quartet (b64_char (a div 4)) (b64_char ((a mod 4) * 16 + b div 16))
           (b64_char ((b mod 16) * 4 + c div 64)) (b64_char (c mod 64)) = Some [a, b, c]"
proof -
  have v0: "a div 4 < 64" using assms by simp
  have v1: "(a mod 4) * 16 + b div 16 < 64" using assms by simp
  have v2: "(b mod 16) * 4 + c div 64 < 64" using assms by simp
  have v3: "c mod 64 < 64" by simp
  have e1: "a div 4 * 4 + ((a mod 4) * 16 + b div 16) div 16 = a" using assms by simp
  have e2: "(((a mod 4) * 16 + b div 16) mod 16) * 16 + ((b mod 16) * 4 + c div 64) div 4 = b"
    using assms by simp
  have e3: "(((b mod 16) * 4 + c div 64) mod 4) * 64 + c mod 64 = c" using assms by simp
  show ?thesis
    unfolding decode_quartet_def
    by (simp only: b64_value_char[OF v0] b64_value_char[OF v1] b64_value_char[OF v2]
        b64_value_char[OF v3] prod.case option.case e1 e2 e3)
qed

lemma decode_final_enc3:
  assumes "a < 256" "b < 256" "c < 256"
  shows "decode_final (b64_char (a div 4)) (b64_char ((a mod 4) * 16 + b div 16))
           (b64_char ((b mod 16) * 4 + c div 64)) (b64_char (c mod 64)) = Some [a, b, c]"
proof -
  have "b64_char (c mod 64) \<noteq> CHR ''=''" by (rule b64_char_not_pad) simp
  then show ?thesis
    by (simp add: decode_final_def decode_quartet_enc[OF assms])
qed

lemma decode_final_enc2:
  assumes "a < 256" "b < 256"
  shows "decode_final (b64_char (a div 4)) (b64_char ((a mod 4) * 16 + b div 16))
           (b64_char ((b mod 16) * 4)) (CHR ''='') = Some [a, b]"
proof -
  have v0: "a div 4 < 64" using assms by simp
  have v1: "(a mod 4) * 16 + b div 16 < 64" using assms by simp
  have v2: "(b mod 16) * 4 < 64" using assms by simp
  have e1: "a div 4 * 4 + ((a mod 4) * 16 + b div 16) div 16 = a" using assms by simp
  have e2: "(((a mod 4) * 16 + b div 16) mod 16) * 16 + ((b mod 16) * 4) div 4 = b"
    using assms by simp
  have np: "b64_char ((b mod 16) * 4) \<noteq> CHR ''=''" by (rule b64_char_not_pad[OF v2])
  show ?thesis
    unfolding decode_final_def
    by (simp only: b64_value_char[OF v0] b64_value_char[OF v1] b64_value_char[OF v2]
        prod.case option.case e1 e2 np if_True if_False refl)
qed

lemma decode_final_enc1:
  assumes "a < 256"
  shows "decode_final (b64_char (a div 4)) (b64_char ((a mod 4) * 16)) (CHR ''='') (CHR ''='') = Some [a]"
proof -
  have v0: "a div 4 < 64" using assms by simp
  have v1: "(a mod 4) * 16 < 64" using assms by simp
  have e1: "a div 4 * 4 + ((a mod 4) * 16) div 16 = a" using assms by simp
  show ?thesis
    unfolding decode_final_def
    by (simp only: b64_value_char[OF v0] b64_value_char[OF v1]
        prod.case option.case e1 if_True refl)
qed

lemma bytesToBase64_Nil: "bytesToBase64 bs = [] \<longleftrightarrow> bs = []"
  by (induction bs rule: bytesToBase64.induct) simp_all

text \<open>Decoding undoes encoding, on bytes.\<close>

lemma base64_roundtrip:
  "\<forall>b \<in> set bs. b < 256 \<Longrightarrow> base64ToUint8Array (bytesToBase64 bs) = Inr bs"
proof (induction bs rule: bytesToBase64.induct)
  case (1 a b c rest)
  then have abc: "a < 256" "b < 256" "c < 256" and rest: "\<forall>b \<in> set rest. b < 256" by simp_all
  have ih: "base64ToUint8Array (bytesToBase64 rest) = Inr rest" using "1.IH" rest by simp
  show ?case
    by (simp add: decode_final_enc3[OF abc] decode_quartet_enc[OF abc] ih bytesToBase64_Nil)
next
  case (2 a b)
  then have ab: "a < 256" "b < 256" by simp_all
  show ?case by (simp add: decode_final_enc2[OF ab])
next
  case (3 a)
  then have a: "a < 256" by simp
  show ?case by (simp add: decode_final_enc1[OF a])
next
  case 4
  show ?case by simp
qed

lemma bytesToInt16_int16ToBytes:
  assumes "- 32768 \<le> v" "v \<le> 32767" and bytes: "int16ToBytes v = [lo, hi]"
  shows "bytesToInt16 lo hi = v"
proof -
  define u where "u = nat (v mod 65536)"
  have u: "u < 65536" unfolding u_def by simp
  have lo: "lo = u mod 256" and hi: "hi = u div 256"
    using bytes u by (auto simp: int16ToBytes_def Let_def u_def)
  have recomb: "lo + 256 * hi = u" unfolding lo hi by simp
  have iu: "int u = v mod 65536" unfolding u_def by simp
  show ?thesis
  proof (cases "0 \<le> v")
    case True
    then have "v mod 65536 = v" using assms by simp
    then show ?thesis using assms True iu unfolding bytesToInt16_def Let_def recomb
      by simp
  next
    case False
    then have "v mod 65536 = v + 65536" using assms
      by (smt (verit) mod_add_self2 mod_pos_pos_trivial)
    then show ?thesis using assms False iu unfolding bytesToInt16_def Let_def recomb
      by simp
  qed
qed

lemma int16ToBytes_bound: "\<forall>b \<in> set (int16ToBytes v). b < 256"
  by (simp add: int16ToBytes_def Let_def)

lemma length_int16ToBytes: "length (int16ToBytes v) = 2"
  by (simp add: int16ToBytes_def Let_def)

lemma pcm16Samples_int16ToBytes:
  "\<forall>v \<in> set vs. - 32768 \<le> v \<and> v \<le> 32767 \<Longrightarrow>
   pcm16Samples (concat (map int16ToBytes vs)) = map (\<lambda>v. real_of_int v / 32768) vs"
proof (induction vs)
  case Nil
  show ?case by simp
next
  case (Cons v vs)
  then have v: "- 32768 \<le> v" "v \<le> 32767" by simp_all
  obtain lo hi where bytes: "int16ToBytes v = [lo, hi]"
    by (simp add: int16ToBytes_def Let_def)
  show ?case using Cons.IH Cons.prems
    by (simp add: bytes bytesToInt16_int16ToBytes[OF v bytes])
qed

lemma floatToInt16_range: "- 32768 \<le> floatToInt16 r x \<and> floatToInt16 r x \<le> 32767"
  by (simp add: floatToInt16_def)

lemma to_integer_close: "\<bar>real_of_int (to_integer r y) - y\<bar> < 1"
  by (cases r) (auto simp: to_integer_def round_def; linarith)+

text \<open>One sample: quantizing and scaling back moves it by at most one step.\<close>

lemma floatToInt16_close:
  assumes "- 1 \<le> x" "x \<le> 1"
  shows "\<bar>real_of_int (floatToInt16 r x) / 32768 - x\<bar> \<le> 1 / 32768"
proof -
  define y where "y = x * 32768"
  define k where "k = to_integer r y"
  have y: "- 32768 \<le> y" "y \<le> 32768" using assms by (simp_all add: y_def)
  have k: "\<bar>real_of_int k - y\<bar> < 1" unfolding k_def by (rule to_integer_close)
  have "\<bar>real_of_int (max (- 32768) (min 32767 k)) - y\<bar> \<le> 1"
    using k y by (auto simp: max_def min_def)
  then have "\<bar>real_of_int (floatToInt16 r x) - x * 32768\<bar> \<le> 1"
    by (simp add: floatToInt16_def k_def y_def)
  then show ?thesis by (simp add: field_simps)
qed

lemma pcm_bytes_facts:
  fixes vs :: "int list"
  defines "bytes \<equiv> concat (map int16ToBytes vs)"
  shows "\<forall>b \<in> set bytes. b < 256" and "length bytes = 2 * length vs"
proof -
  show "\<forall>b \<in> set bytes. b < 256"
    unfolding bytes_def using int16ToBytes_bound by auto
  show "length bytes = 2 * length vs"
    unfolding bytes_def by (induction vs) (simp_all add: length_int16ToBytes)
qed

text \<open>What the round trip returns: every sample quantized and scaled back.\<close>

lemma decodePcm_encodePcm:
  assumes "x \<noteq> []"
  shows "decodePcm (encodePcm r x) rate =
         Inr \<lparr>channelData = map (\<lambda>s. real_of_int (floatToInt16 r s) / 32768) x, sampleRate = rate\<rparr>"
proof -
  define vs where "vs = map (floatToInt16 r) x"
  define bytes where "bytes = concat (map int16ToBytes vs)"
  have enc: "encodePcm r x = bytesToBase64 bytes"
    by (simp add: encodePcm_def bytes_def vs_def comp_def)
  have bound: "\<forall>b \<in> set bytes. b < 256" and len: "length bytes = 2 * length vs"
    unfolding bytes_def by (rule pcm_bytes_facts)+
  have b64: "base64ToUint8Array (bytesToBase64 bytes) = Inr bytes"
    by (rule base64_roundtrip[OF bound])
  have ne: "bytes \<noteq> []" using len assms by (auto simp: vs_def)
  have ev: "\<not> odd (length bytes)" using len by simp
  have range: "\<forall>v \<in> set vs. - 32768 \<le> v \<and> v \<le> 32767"
    using floatToInt16_range by (auto simp: vs_def)
  have samples: "pcm16Samples bytes = map (\<lambda>v. real_of_int v / 32768) vs"
    unfolding bytes_def by (rule pcm16Samples_int16ToBytes[OF range])
  show ?thesis
    by (simp add: decodePcm_def enc b64 decodeAudioData_def ne ev samples vs_def comp_def)
qed

text \<open>
  C9. For every non-empty buffer of samples in [-1, 1], whatever the direction of
  rounding and the sample rate, decoding the encoded buffer succeeds, returns as many
  samples as were encoded, and each returned sample differs from the one encoded by at
  most one quantization step, 1/32768. (The empty buffer encodes to the empty text, which
  the decoder refuses as the specification says.)
\<close>

theorem codec_round_trip:
  assumes "x \<noteq> []" and "\<forall>s \<in> set x. - 1 \<le> s \<and> s \<le> 1"
  shows "\<exists>y. decodePcm (encodePcm r x) rate = Inr y
           \<and> length (channelData y) = length x
           \<and> (\<forall>i < length x. \<bar>channelData y ! i - x ! i\<bar> \<le> 1 / 32768)"
proof -
  let ?y = "\<lparr>channelData = map (\<lambda>s. real_of_int (floatToInt16 r s) / 32768) x, sampleRate = rate\<rparr>"
  have dec: "decodePcm (encodePcm r x) rate = Inr ?y"
    by (rule decodePcm_encodePcm[OF assms(1)])
  have close: "\<forall>i < length x. \<bar>channelData ?y ! i - x ! i\<bar> \<le> 1 / 32768"
  proof (intro allI impI)
    fix i assume i: "i < length x"
    then have "x ! i \<in> set x" by simp
    then have "- 1 \<le> x ! i" "x ! i \<le> 1" using assms(2) by auto
    then show "\<bar>channelData ?y ! i - x ! i\<bar> \<le> 1 / 32768"
      using i floatToInt16_close[of "x ! i" r] by simp
  qed
  show ?thesis using dec close by (intro exI[of _ ?y]) simp
qed

text \<open>C9, an instance: the samples 1, -1 and 1/3, rounded toward zero.\<close>

theorem codec_round_trip_witness:
  "[1, - 1, 1 / 3 :: real] \<noteq> [] \<and> list_all (\<lambda>s. - 1 \<le> s \<and> s \<le> 1) [1, - 1, 1 / 3 :: real]
   \<and> (\<exists>y. decodePcm (encodePcm TowardZero [1, - 1, 1 / 3]) 24000 = Inr y
          \<and> length (channelData y) = 3
          \<and> \<bar>channelData y ! 0 - 1\<bar> \<le> 1 / 32768
          \<and> \<bar>channelData y ! 1 - (- 1)\<bar> \<le> 1 / 32768
          \<and> \<bar>channelData y ! 2 - 1 / 3\<bar> \<le> 1 / 32768)"
proof -
  have h: "\<forall>s \<in> set [1, - 1, 1 / 3 :: real]. - 1 \<le> s \<and> s \<le> 1" by simp
  obtain y where y: "decodePcm (encodePcm TowardZero [1, - 1, 1 / 3]) 24000 = Inr y"
      "length (channelData y) = length [1, - 1, 1 / 3 :: real]"
      "\<forall>i < length [1, - 1, 1 / 3 :: real]. \<bar>channelData y ! i - [1, - 1, 1 / 3] ! i\<bar> \<le> 1 / 32768"
    using codec_round_trip[OF _ h, of TowardZero 24000] by auto
  have "\<bar>channelData y ! 0 - 1\<bar> \<le> 1 / 32768" using y(3)[rule_format, of 0] by simp
  moreover have "\<bar>channelData y ! 1 - (- 1)\<bar> \<le> 1 / 32768" using y(3)[rule_format, of 1] by simp
  moreover have "\<bar>channelData y ! 2 - 1 / 3\<bar> \<le> 1 / 32768" using y(3)[rule_format, of 2] by simp
  ultimately show ?thesis using y(1,2) by auto
qed

subsection \<open>cleanup\<close>

lemma new_effects_append [simp]:
  "effects after = effects before @ es \<Longrightarrow> new_effects before after = es"
  by (simp add: new_effects_def)

lemma cleanup_timer:
  "(case videoIntervalRef st of
      Some t \<Rightarrow> if t \<noteq> 0 then (emit [ClearInterval t] st)\<lparr>videoIntervalRef := None\<rparr> else st
    | None \<Rightarrow> st)
   = st\<lparr>videoIntervalRef := (if videoIntervalRef st = Some 0 then Some 0 else None),
        effects := effects st @
          (case videoIntervalRef st of Some t \<Rightarrow> if t \<noteq> 0 then [ClearInterval t] else [] | None \<Rightarrow> [])\<rparr>"
  by (cases "videoIntervalRef st") (simp_all add: emit_def)

lemma cleanup_session:
  "(case sessionRef st of
      Some s \<Rightarrow> (emit [SessionClose s] st)\<lparr>sessionRef := None\<rparr>
    | None \<Rightarrow> st)
   = st\<lparr>sessionRef := None,
        effects := effects st @ (case sessionRef st of Some s \<Rightarrow> [SessionClose s] | None \<Rightarrow> [])\<rparr>"
  by (cases "sessionRef st") (simp_all add: emit_def)

lemma cleanup_stream:
  "(case mediaStreamRef st of
      Some stream \<Rightarrow> (emit (map TrackStop stream) st)\<lparr>mediaStreamRef := None\<rparr>
    | None \<Rightarrow> st)
   = st\<lparr>mediaStreamRef := None,
        effects := effects st @
          (case mediaStreamRef st of Some stream \<Rightarrow> map TrackStop stream | None \<Rightarrow> [])\<rparr>"
  by (cases "mediaStreamRef st") (simp_all add: emit_def)

lemma cleanup_input:
  "(case inputAudioContextRef st of
      Some c \<Rightarrow> (emit [ContextClose c] st)\<lparr>inputAudioContextRef := None\<rparr>
    | None \<Rightarrow> st)
   = st\<lparr>inputAudioContextRef := None,
        effects := effects st @
          (case inputAudioContextRef st of Some c \<Rightarrow> [ContextClose c] | None \<Rightarrow> [])\<rparr>"
  by (cases "inputAudioContextRef st") (simp_all add: emit_def)

lemma cleanup_output:
  "(case outputAudioContextRef st of
      Some c \<Rightarrow> (emit [ContextClose c] st)\<lparr>outputAudioContextRef := None\<rparr>
    | None \<Rightarrow> st)
   = st\<lparr>outputAudioContextRef := None,
        effects := effects st @
          (case outputAudioContextRef st of Some c \<Rightarrow> [ContextClose c] | None \<Rightarrow> [])\<rparr>"
  by (cases "outputAudioContextRef st") (simp_all add: emit_def)

lemma cleanup_eq:
  "cleanup st =
     st\<lparr>videoIntervalRef := (if videoIntervalRef st = Some 0 then Some 0 else None),
        sessionRef := None, sourcesRef := [], mediaStreamRef := None,
        inputAudioContextRef := None, outputAudioContextRef := None,
        isConnected := False, volumeLevel := 0,
        effects := effects st @ release_calls st @ [OnConnectionStateChange False]\<rparr>"
  unfolding cleanup_def Let_def cleanup_timer cleanup_session cleanup_stream cleanup_input
    cleanup_output
  by (simp add: emit_def release_calls_def)

lemma release_calls_cleanup: "release_calls (cleanup st) = []"
  by (simp add: cleanup_eq release_calls_def)

lemma cleanup_twice:
  "cleanup (cleanup st) = emit [OnConnectionStateChange False] (cleanup st)"
  by (simp add: cleanup_eq[of "cleanup st"] release_calls_cleanup emit_def) (simp add: cleanup_eq)

subsection \<open>The concrete states and payloads\<close>

lemma connected_state_eq:
  "connected_state =
     \<lparr>inputAudioContextRef = Some 0, outputAudioContextRef = Some 1,
      mediaStreamRef = Some [11], nextStartTimeRef = 0, sourcesRef = [],
      sessionRef = Some 3, videoIntervalRef = Some 7, isConnected = True,
      error = None, volumeLevel = 0, onError_given = True, objectCount = 2,
      effects =
        [NewAudioContext 0 16000, NewAudioContext 1 24000, GetUserMedia,
         ConsoleLog ''Gemini Live Session Opened'',
         OnConnectionStateChange True, SetInterval 7 500]\<rparr>"
  by (simp add: connected_state_def connect_def connect_try_def granted_env_def
      initial_state_def truthy_def emit_def onopen_def Let_def
      INPUT_SAMPLE_RATE_def OUTPUT_SAMPLE_RATE_def FRAME_RATE_def)

lemma base64_three_samples: "base64ToUint8Array three_samples = Inr [0, 0, 0, 0, 0, 0]"
  by (simp add: three_samples_def decode_final_def decode_quartet_def b64_value_def)

lemma base64_four_samples: "base64ToUint8Array four_samples = Inr [0, 0, 0, 0, 0, 0, 0, 0]"
  by (simp add: four_samples_def decode_final_def decode_quartet_def b64_value_def)

lemma base64_odd_bytes: "base64ToUint8Array odd_bytes = Inr [0, 0, 0]"
  by (simp add: odd_bytes_def decode_final_def decode_quartet_def b64_value_def)

lemma base64_not_base64: "base64ToUint8Array not_base64 = Inl (JsError (Some ''InvalidCharacterError''))"
  by (simp add: not_base64_def decode_final_def decode_quartet_def b64_value_def)

lemma decodePcm_three_samples:
  "decodePcm three_samples rate = Inr \<lparr>channelData = [0, 0, 0], sampleRate = rate\<rparr>"
  by (simp add: decodePcm_def base64_three_samples decodeAudioData_def bytesToInt16_def)

lemma decodePcm_four_samples:
  "decodePcm four_samples rate = Inr \<lparr>channelData = [0, 0, 0, 0], sampleRate = rate\<rparr>"
  by (simp add: decodePcm_def base64_four_samples decodeAudioData_def bytesToInt16_def)

lemma decodePcm_odd_bytes: "decodePcm odd_bytes rate = Inl (JsError (Some ''DecodeError''))"
  by (simp add: decodePcm_def base64_odd_bytes decodeAudioData_def)

lemma decodePcm_not_base64: "decodePcm not_base64 rate = Inl (JsError (Some ''InvalidCharacterError''))"
  by (simp add: decodePcm_def base64_not_base64)

lemma payload_nonempty:
  "three_samples \<noteq> []" "four_samples \<noteq> []" "odd_bytes \<noteq> []" "not_base64 \<noteq> []"
  by (simp_all add: three_samples_def four_samples_def odd_bytes_def not_base64_def)

lemma base64Audio_of_audio_message [simp]: "base64Audio_of (audio_message p flag) = Inr (Some p)"
  by (simp add: base64Audio_of_def audio_message_def)

lemma base64Audio_of_plain_message [simp]: "base64Audio_of (plain_message flag) = Inr None"
  by (simp add: base64Audio_of_def plain_message_def)

lemma base64Audio_of_partless_message [simp]:
  "base64Audio_of (partless_message flag) = Inl (JsError (Some ''TypeError''))"
  by (simp add: base64Audio_of_def partless_message_def)

lemma interrupted_of_partless_message [simp]:
  "interrupted_of (partless_message flag) = (flag = Some True)"
  by (cases flag) (auto simp add: interrupted_of_def partless_message_def)

lemma interrupted_of_audio_message [simp]:
  "interrupted_of (audio_message p flag) = (flag = Some True)"
  by (cases flag) (auto simp add: interrupted_of_def audio_message_def)

lemma interrupted_of_plain_message [simp]:
  "interrupted_of (plain_message flag) = (flag = Some True)"
  by (cases flag) (auto simp add: interrupted_of_def plain_message_def)

subsection \<open>One message\<close>

lemma chunk_of_SomeD:
  assumes "chunk_of msg = Some buf"
  obtains p where "base64Audio_of msg = Inr (Some p)" "p \<noteq> []" "decodePcm p OUTPUT_SAMPLE_RATE = Inr buf"
  using assms by (auto simp: chunk_of_def split: option.splits if_splits sum.splits)

lemma decode_error_of_SomeD:
  assumes "decode_error_of msg = Some err"
  obtains p where "base64Audio_of msg = Inr (Some p)" "p \<noteq> []" "decodePcm p OUTPUT_SAMPLE_RATE = Inl err"
  using assms by (auto simp: decode_error_of_def split: option.splits if_splits sum.splits)

lemma handleAudioOutput_chunk:
  assumes ctx: "outputAudioContextRef st \<noteq> None" and chunk: "chunk_of msg = Some buf"
  shows "handleAudioOutput t msg st =
           (Resolved,
            st\<lparr>nextStartTimeRef := max (nextStartTimeRef st) t + duration buf,
               objectCount := objectCount st + 1,
               effects := effects st @ [SourceStart (objectCount st) (max (nextStartTimeRef st) t)],
               sourcesRef := set_add \<lparr>source_id = objectCount st, buffer = buf\<rparr> (sourcesRef st)\<rparr>)"
proof -
  obtain p where p: "base64Audio_of msg = Inr (Some p)" "p \<noteq> []" "decodePcm p OUTPUT_SAMPLE_RATE = Inr buf"
    using chunk by (rule chunk_of_SomeD)
  from p(3) obtain bytes where bytes: "base64ToUint8Array p = Inr bytes"
      "decodeAudioData bytes OUTPUT_SAMPLE_RATE = Inr buf"
    by (auto simp: decodePcm_def split: sum.splits)
  show ?thesis
    using ctx by (cases st) (simp add: handleAudioOutput_def p bytes emit_def Let_def)
qed

lemma handleAudioOutput_decode_error:
  assumes ctx: "outputAudioContextRef st \<noteq> None" and bad: "decode_error_of msg = Some err"
  shows "handleAudioOutput t msg st =
           (Rejected err, st\<lparr>nextStartTimeRef := max (nextStartTimeRef st) t\<rparr>)"
proof -
  obtain p where p: "base64Audio_of msg = Inr (Some p)" "p \<noteq> []" "decodePcm p OUTPUT_SAMPLE_RATE = Inl err"
    using bad by (rule decode_error_of_SomeD)
  show ?thesis
    using ctx p(3)
    by (auto simp: handleAudioOutput_def p(1,2) decodePcm_def Let_def split: sum.splits)
qed



lemma onmessage_chunk:
  assumes ctx: "outputAudioContextRef st \<noteq> None" and chunk: "chunk_of msg = Some buf"
    and quiet: "\<not> interrupted_of msg"
  shows "onmessage t msg st =
           (Resolved,
            st\<lparr>nextStartTimeRef := max (nextStartTimeRef st) t + duration buf,
               objectCount := objectCount st + 1,
               effects := effects st @ [SourceStart (objectCount st) (max (nextStartTimeRef st) t)],
               sourcesRef := set_add \<lparr>source_id = objectCount st, buffer = buf\<rparr> (sourcesRef st)\<rparr>)"
  by (simp add: onmessage_def handleAudioOutput_chunk[OF ctx chunk] handleInterruption_def quiet)

lemma onmessage_decode_error:
  assumes ctx: "outputAudioContextRef st \<noteq> None" and bad: "decode_error_of msg = Some err"
  shows "onmessage t msg st = (Rejected err, st\<lparr>nextStartTimeRef := max (nextStartTimeRef st) t\<rparr>)"
  by (simp add: onmessage_def handleAudioOutput_decode_error[OF ctx bad])


lemma start_times_append: "start_times (xs @ ys) = start_times xs @ start_times ys"
  by (induction xs rule: start_times.induct) simp_all

text \<open>A run of chunks, none interrupted: the calls of start and the cursor.\<close>

lemma onmessages_chunks:
  assumes "outputAudioContextRef st \<noteq> None"
    and "map (\<lambda>(t, m). chunk_of m) ms = map Some bufs"
    and "\<forall>(t, m) \<in> set ms. \<not> interrupted_of m"
  shows "\<exists>es. effects (onmessages ms st) = effects st @ es
           \<and> start_times es = schedule (nextStartTimeRef st) (zip (map fst ms) (map duration bufs))
           \<and> nextStartTimeRef (onmessages ms st)
               = cursor_after (nextStartTimeRef st) (zip (map fst ms) (map duration bufs))
           \<and> outputAudioContextRef (onmessages ms st) = outputAudioContextRef st"
  using assms
proof (induction ms arbitrary: st bufs)
  case Nil
  then show ?case by simp
next
  case (Cons tm ms)
  obtain t m where tm: "tm = (t, m)" by (cases tm)
  from Cons.prems(2) obtain buf bufs' where bufs: "bufs = buf # bufs'"
      and chunk: "chunk_of m = Some buf"
      and rest: "map (\<lambda>(t, m). chunk_of m) ms = map Some bufs'"
    by (cases bufs) (auto simp: tm)
  have quiet: "\<not> interrupted_of m" and quiet': "\<forall>(t, m) \<in> set ms. \<not> interrupted_of m"
    using Cons.prems(3) by (auto simp: tm)
  let ?st1 = "snd (onmessage t m st)"
  have step: "onmessage t m st =
           (Resolved,
            st\<lparr>nextStartTimeRef := max (nextStartTimeRef st) t + duration buf,
               objectCount := objectCount st + 1,
               effects := effects st @ [SourceStart (objectCount st) (max (nextStartTimeRef st) t)],
               sourcesRef := set_add \<lparr>source_id = objectCount st, buffer = buf\<rparr> (sourcesRef st)\<rparr>)"
    by (rule onmessage_chunk[OF Cons.prems(1) chunk quiet])
  have ctx1: "outputAudioContextRef ?st1 \<noteq> None" using Cons.prems(1) by (simp add: step)
  from Cons.IH[OF ctx1 rest quiet'] obtain es where es:
      "effects (onmessages ms ?st1) = effects ?st1 @ es"
      "start_times es = schedule (nextStartTimeRef ?st1) (zip (map fst ms) (map duration bufs'))"
      "nextStartTimeRef (onmessages ms ?st1)
         = cursor_after (nextStartTimeRef ?st1) (zip (map fst ms) (map duration bufs'))"
      "outputAudioContextRef (onmessages ms ?st1) = outputAudioContextRef ?st1"
    by blast
  show ?case
    using es
    by (intro exI[of _ "SourceStart (objectCount st) (max (nextStartTimeRef st) t) # es"])
       (simp add: tm bufs step)
qed

lemma length_schedule: "length (schedule c tds) = length tds"
  by (induction c tds rule: schedule.induct) simp_all

subsection \<open>Gapless scheduling\<close>

lemma schedule_nth:
  "i < length tds \<Longrightarrow> schedule c tds ! i = max (cursor_after c (take i tds)) (fst (tds ! i))"
proof (induction c tds arbitrary: i rule: schedule.induct)
  case (1 c)
  then show ?case by simp
next
  case (2 c t d rest)
  then show ?case by (cases i) simp_all
qed

lemma cursor_after_Suc:
  "i < length tds \<Longrightarrow> cursor_after c (take (Suc i) tds) = schedule c tds ! i + snd (tds ! i)"
proof (induction c tds arbitrary: i rule: schedule.induct)
  case (1 c)
  then show ?case by simp
next
  case (2 c t d rest)
  then show ?case by (cases i) simp_all
qed

lemma onmessages_prefix_cursor:
  assumes ctx: "outputAudioContextRef st \<noteq> None"
    and chunks: "map (\<lambda>(t, m). chunk_of m) ms = map Some bufs"
    and quiet: "\<forall>(t, m) \<in> set ms. \<not> interrupted_of m"
  shows "nextStartTimeRef (onmessages (take i ms) st)
         = cursor_after (nextStartTimeRef st) (take i (zip (map fst ms) (map duration bufs)))"
proof -
  have c: "map (\<lambda>(t, m). chunk_of m) (take i ms) = map Some (take i bufs)"
    using chunks by (simp add: take_map[symmetric])
  have q: "\<forall>(t, m) \<in> set (take i ms). \<not> interrupted_of m"
    using quiet by (auto dest: in_set_takeD)
  from onmessages_chunks[OF ctx c q] show ?thesis
    by (auto simp: take_zip take_map)
qed

text \<open>
  C1. Messages that each carry a chunk (a non-empty payload that decodes), none with the
  interruption flag, handled in order while the output context exists, each after the
  first arriving no later than the cursor \<open>nextStartTimeRef\<close> stands at its arrival.
  Then there is one call of \<^verbatim>\<open>start\<close> per message; chunk \<open>i\<close> is started at the
  maximum of the cursor and the clock, and the cursor is then its start plus its
  duration; and the start of chunk \<open>i + 1\<close> is the start of chunk \<open>i\<close> plus the duration
  of chunk \<open>i\<close>: no gap and no overlap.
\<close>

theorem chunks_play_back_to_back:
  assumes ctx: "outputAudioContextRef st \<noteq> None"
    and chunks: "map (\<lambda>(t, m). chunk_of m) ms = map Some bufs"
    and quiet: "\<forall>(t, m) \<in> set ms. \<not> interrupted_of m"
    and fast: "\<forall>i. 0 < i \<and> i < length ms \<longrightarrow>
                 fst (ms ! i) \<le> nextStartTimeRef (onmessages (take i ms) st)"
  shows "length (start_times (new_effects st (onmessages ms st))) = length ms
       \<and> (\<forall>i < length ms.
            start_times (new_effects st (onmessages ms st)) ! i
              = max (nextStartTimeRef (onmessages (take i ms) st)) (fst (ms ! i))
          \<and> nextStartTimeRef (onmessages (take (Suc i) ms) st)
              = start_times (new_effects st (onmessages ms st)) ! i + duration (bufs ! i))
       \<and> (\<forall>i. Suc i < length ms \<longrightarrow>
            start_times (new_effects st (onmessages ms st)) ! Suc i
              = start_times (new_effects st (onmessages ms st)) ! i + duration (bufs ! i))"
proof -
  define tds where "tds = zip (map fst ms) (map duration bufs)"
  define ts where "ts = start_times (new_effects st (onmessages ms st))"
  have len_bufs: "length bufs = length ms"
    using chunks by (metis length_map)
  have len_tds: "length tds = length ms" by (simp add: tds_def len_bufs)
  from onmessages_chunks[OF ctx chunks quiet] obtain es where
      es: "effects (onmessages ms st) = effects st @ es"
      and st_es: "start_times es = schedule (nextStartTimeRef st) tds"
    unfolding tds_def by blast
  have ts: "ts = schedule (nextStartTimeRef st) tds"
    unfolding ts_def using es st_es by simp
  have cur: "\<And>i. nextStartTimeRef (onmessages (take i ms) st)
               = cursor_after (nextStartTimeRef st) (take i tds)"
    unfolding tds_def by (rule onmessages_prefix_cursor[OF ctx chunks quiet])
  have nth_tds: "\<And>i. i < length ms \<Longrightarrow> fst (tds ! i) = fst (ms ! i) \<and> snd (tds ! i) = duration (bufs ! i)"
    by (simp add: tds_def len_bufs)
  have a: "length ts = length ms" by (simp add: ts length_schedule len_tds)
  have b: "\<forall>i < length ms. ts ! i = max (nextStartTimeRef (onmessages (take i ms) st)) (fst (ms ! i))
             \<and> nextStartTimeRef (onmessages (take (Suc i) ms) st) = ts ! i + duration (bufs ! i)"
  proof (intro allI impI)
    fix i assume i: "i < length ms"
    then have i': "i < length tds" by (simp add: len_tds)
    show "ts ! i = max (nextStartTimeRef (onmessages (take i ms) st)) (fst (ms ! i))
             \<and> nextStartTimeRef (onmessages (take (Suc i) ms) st) = ts ! i + duration (bufs ! i)"
      using schedule_nth[OF i', of "nextStartTimeRef st"] cursor_after_Suc[OF i', of "nextStartTimeRef st"]
        nth_tds[OF i]
      by (simp add: ts cur)
  qed
  have c: "\<forall>i. Suc i < length ms \<longrightarrow> ts ! Suc i = ts ! i + duration (bufs ! i)"
  proof (intro allI impI)
    fix i assume i: "Suc i < length ms"
    then have i0: "i < length ms" by simp
    have "ts ! Suc i = max (nextStartTimeRef (onmessages (take (Suc i) ms) st)) (fst (ms ! Suc i))"
      using b i by blast
    moreover have "fst (ms ! Suc i) \<le> nextStartTimeRef (onmessages (take (Suc i) ms) st)"
      using fast i by blast
    moreover have "nextStartTimeRef (onmessages (take (Suc i) ms) st) = ts ! i + duration (bufs ! i)"
      using b i0 by blast
    ultimately show "ts ! Suc i = ts ! i + duration (bufs ! i)" by simp
  qed
  show ?thesis using a b c unfolding ts_def by blast
qed

lemma chunk_of_three_samples [simp]: "chunk_of (audio_message three_samples flag) = Some (silence 3)"
  by (simp add: chunk_of_def payload_nonempty decodePcm_three_samples silence_def numeral_3_eq_3)

lemma chunk_of_four_samples [simp]: "chunk_of (audio_message four_samples flag) = Some (silence 4)"
  by (simp add: chunk_of_def payload_nonempty decodePcm_four_samples silence_def eval_nat_numeral)

lemma decode_error_of_odd_bytes [simp]:
  "decode_error_of (audio_message odd_bytes flag) = Some (JsError (Some ''DecodeError''))"
  by (simp add: decode_error_of_def payload_nonempty decodePcm_odd_bytes)

lemma decode_error_of_not_base64 [simp]:
  "decode_error_of (audio_message not_base64 flag) = Some (JsError (Some ''InvalidCharacterError''))"
  by (simp add: decode_error_of_def payload_nonempty decodePcm_not_base64)

lemma duration_silence: "duration (silence n) = real n / 24000"
  by (simp add: duration_def silence_def OUTPUT_SAMPLE_RATE_def)

lemma example_prefix_1:
  "nextStartTimeRef (onmessages (take 1 example_chunks) connected_state) = 1 / 8000"
  by (simp add: example_chunks_def onmessage_chunk connected_state_eq duration_silence)

lemma example_prefix_2:
  "nextStartTimeRef (onmessages (take 2 example_chunks) connected_state) = 7 / 24000"
  by (simp add: example_chunks_def onmessage_chunk connected_state_eq duration_silence
      numeral_2_eq_2)

text \<open>
  C1, an instance: chunks of three, four and three samples on the connected hook, the
  first two arriving at clock 0 and the third at 1/10000, before the cursor.
\<close>

theorem chunks_play_back_to_back_witness:
  "outputAudioContextRef connected_state = Some 1
   \<and> map (\<lambda>(t, m). chunk_of m) example_chunks = map Some [silence 3, silence 4, silence 3]
   \<and> list_all (\<lambda>(t, m). \<not> interrupted_of m) example_chunks
   \<and> fst (example_chunks ! 1) \<le> nextStartTimeRef (onmessages (take 1 example_chunks) connected_state)
   \<and> fst (example_chunks ! 2) \<le> nextStartTimeRef (onmessages (take 2 example_chunks) connected_state)
   \<and> length (start_times (new_effects connected_state (onmessages example_chunks connected_state))) = 3
   \<and> start_times (new_effects connected_state (onmessages example_chunks connected_state)) ! 1
       = start_times (new_effects connected_state (onmessages example_chunks connected_state)) ! 0
         + duration (silence 3)
   \<and> start_times (new_effects connected_state (onmessages example_chunks connected_state)) ! 2
       = start_times (new_effects connected_state (onmessages example_chunks connected_state)) ! 1
         + duration (silence 4)"
proof -
  have h1: "outputAudioContextRef connected_state \<noteq> None" by (simp add: connected_state_eq)
  have h2: "map (\<lambda>(t, m). chunk_of m) example_chunks = map Some [silence 3, silence 4, silence 3]"
    by (simp add: example_chunks_def)
  have h3: "\<forall>(t, m) \<in> set example_chunks. \<not> interrupted_of m"
    by (simp add: example_chunks_def)
  have f1: "fst (example_chunks ! 1) \<le> nextStartTimeRef (onmessages (take 1 example_chunks) connected_state)"
    unfolding example_prefix_1 by (simp add: example_chunks_def)
  have f2: "fst (example_chunks ! 2) \<le> nextStartTimeRef (onmessages (take 2 example_chunks) connected_state)"
    unfolding example_prefix_2 by (simp add: example_chunks_def)
  have h4: "\<forall>i. 0 < i \<and> i < length example_chunks \<longrightarrow>
              fst (example_chunks ! i) \<le> nextStartTimeRef (onmessages (take i example_chunks) connected_state)"
  proof (intro allI impI)
    fix i assume "0 < i \<and> i < length example_chunks"
    then have "i = 1 \<or> i = 2" by (auto simp: example_chunks_def)
    then show "fst (example_chunks ! i) \<le> nextStartTimeRef (onmessages (take i example_chunks) connected_state)"
      using f1 f2 by auto
  qed
  have len: "length example_chunks = 3" by (simp add: example_chunks_def)
  note inst = chunks_play_back_to_back[OF h1 h2 h3 h4]
  have a: "length (start_times (new_effects connected_state (onmessages example_chunks connected_state))) = 3"
    using inst len by simp
  have b: "start_times (new_effects connected_state (onmessages example_chunks connected_state)) ! 1
       = start_times (new_effects connected_state (onmessages example_chunks connected_state)) ! 0
         + duration (silence 3)"
    using inst[THEN conjunct2, THEN conjunct2, rule_format, of 0] len by simp
  have c: "start_times (new_effects connected_state (onmessages example_chunks connected_state)) ! 2
       = start_times (new_effects connected_state (onmessages example_chunks connected_state)) ! 1
         + duration (silence 4)"
    using inst[THEN conjunct2, THEN conjunct2, rule_format, of 1] len by (simp add: numeral_2_eq_2)
  have h3': "list_all (\<lambda>(t, m). \<not> interrupted_of m) example_chunks"
    by (simp add: example_chunks_def)
  show ?thesis using h2 h3' f1 f2 a b c by (simp add: connected_state_eq)
qed

subsection \<open>Interruption and decode errors\<close>

lemma playing_state_eq:
  "playing_state =
     \<lparr>inputAudioContextRef = Some 0, outputAudioContextRef = Some 1,
      mediaStreamRef = Some [11], nextStartTimeRef = 1 / 8000,
      sourcesRef = [\<lparr>source_id = 2, buffer = silence 3\<rparr>],
      sessionRef = Some 3, videoIntervalRef = Some 7, isConnected = True,
      error = None, volumeLevel = 0, onError_given = True, objectCount = 3,
      effects =
        [NewAudioContext 0 16000, NewAudioContext 1 24000, GetUserMedia,
         ConsoleLog ''Gemini Live Session Opened'',
         OnConnectionStateChange True, SetInterval 7 500, SourceStart 2 0]\<rparr>"
  by (simp add: playing_state_def onmessage_chunk connected_state_eq duration_silence set_add_def)

lemma chunk_or_error:
  "chunk_of msg \<noteq> None \<Longrightarrow> decode_error_of msg = None"
  by (auto simp: chunk_of_def decode_error_of_def split: option.splits if_splits sum.splits)

lemma handleInterruption_flag:
  "interrupted_of msg \<Longrightarrow>
   handleInterruption msg st =
     st\<lparr>sourcesRef := [], nextStartTimeRef := 0,
        effects := effects st @ map (\<lambda>s. SourceStop (source_id s)) (sourcesRef st)\<rparr>"
  by (simp add: handleInterruption_def emit_def)

lemma set_add_set: "set (set_add x xs) = insert x (set xs)"
  by (auto simp: set_add_def)

lemma onmessage_interrupted_chunk:
  assumes ctx: "outputAudioContextRef st \<noteq> None" and chunk: "chunk_of msg = Some buf"
    and flag: "interrupted_of msg"
  shows "onmessage t msg st =
           (Resolved,
            st\<lparr>nextStartTimeRef := 0, objectCount := objectCount st + 1,
               effects := effects st @
                 SourceStart (objectCount st) (max (nextStartTimeRef st) t) #
                 map (\<lambda>s. SourceStop (source_id s))
                   (set_add \<lparr>source_id = objectCount st, buffer = buf\<rparr> (sourcesRef st)),
               sourcesRef := []\<rparr>)"
  by (simp add: onmessage_def handleAudioOutput_chunk[OF ctx chunk] handleInterruption_flag[OF flag])







text \<open>
  C7 as it holds. A payload that fails to decode, met while the output context exists,
  makes the handler reject with the decode error: no \<^verbatim>\<open>catch\<close> takes it, nothing is logged,
  nothing is scheduled or stopped, and the rest of the handler, the interruption block
  included, is not run. The only write is the cursor, raised to the clock if the clock
  is ahead. The session and every resource stay as they were, and a chunk that decodes,
  arriving next, is scheduled at the maximum of that cursor and the clock.
\<close>

theorem decode_error_rejects_handler:
  assumes ctx: "outputAudioContextRef st \<noteq> None" and bad: "decode_error_of msg = Some err"
  shows "onmessage t msg st = (Rejected err, st\<lparr>nextStartTimeRef := max (nextStartTimeRef st) t\<rparr>)
       \<and> new_effects st (snd (onmessage t msg st)) = []
       \<and> (\<forall>t' msg' buf.
            chunk_of msg' = Some buf \<and> \<not> interrupted_of msg' \<longrightarrow>
            fst (onmessage t' msg' (snd (onmessage t msg st))) = Resolved
            \<and> new_effects (snd (onmessage t msg st)) (snd (onmessage t' msg' (snd (onmessage t msg st))))
                = [SourceStart (objectCount st) (max (max (nextStartTimeRef st) t) t')]
            \<and> nextStartTimeRef (snd (onmessage t' msg' (snd (onmessage t msg st))))
                = max (max (nextStartTimeRef st) t) t' + duration buf)"
proof -
  have step: "onmessage t msg st = (Rejected err, st\<lparr>nextStartTimeRef := max (nextStartTimeRef st) t\<rparr>)"
    by (rule onmessage_decode_error[OF ctx bad])
  have no_effect: "new_effects st (snd (onmessage t msg st)) = []"
    by (simp add: step new_effects_def)
  have later: "\<forall>t' msg' buf.
            chunk_of msg' = Some buf \<and> \<not> interrupted_of msg' \<longrightarrow>
            fst (onmessage t' msg' (snd (onmessage t msg st))) = Resolved
            \<and> new_effects (snd (onmessage t msg st)) (snd (onmessage t' msg' (snd (onmessage t msg st))))
                = [SourceStart (objectCount st) (max (max (nextStartTimeRef st) t) t')]
            \<and> nextStartTimeRef (snd (onmessage t' msg' (snd (onmessage t msg st))))
                = max (max (nextStartTimeRef st) t) t' + duration buf"
  proof (intro allI impI)
    fix t' :: real and msg' buf
    assume a: "chunk_of msg' = Some buf \<and> \<not> interrupted_of msg'"
    let ?st1 = "st\<lparr>nextStartTimeRef := max (nextStartTimeRef st) t\<rparr>"
    have ctx1: "outputAudioContextRef ?st1 \<noteq> None" using ctx by simp
    from a have chunk: "chunk_of msg' = Some buf" and quiet: "\<not> interrupted_of msg'" by simp_all
    show "fst (onmessage t' msg' (snd (onmessage t msg st))) = Resolved
            \<and> new_effects (snd (onmessage t msg st)) (snd (onmessage t' msg' (snd (onmessage t msg st))))
                = [SourceStart (objectCount st) (max (max (nextStartTimeRef st) t) t')]
            \<and> nextStartTimeRef (snd (onmessage t' msg' (snd (onmessage t msg st))))
                = max (max (nextStartTimeRef st) t) t' + duration buf"
      by (simp add: step onmessage_chunk[OF ctx1 chunk quiet])
  qed
  show ?thesis using step no_effect later by blast
qed

text \<open>C7, an instance: a payload of three bytes, then a chunk of three samples.\<close>

theorem decode_error_rejects_handler_witness:
  "outputAudioContextRef connected_state = Some 1
   \<and> decode_error_of (audio_message odd_bytes (Some True)) = Some (JsError (Some ''DecodeError''))
   \<and> chunk_of (audio_message three_samples None) = Some (silence 3)
   \<and> fst (onmessage 1 (audio_message odd_bytes (Some True)) connected_state)
       = Rejected (JsError (Some ''DecodeError''))
   \<and> snd (onmessage 1 (audio_message odd_bytes (Some True)) connected_state)
       = connected_state\<lparr>nextStartTimeRef := 1\<rparr>
   \<and> new_effects (snd (onmessage 1 (audio_message odd_bytes (Some True)) connected_state))
         (snd (onmessage 2 (audio_message three_samples None)
                (snd (onmessage 1 (audio_message odd_bytes (Some True)) connected_state))))
       = [SourceStart 2 2]"
proof -
  have ctx: "outputAudioContextRef connected_state \<noteq> None" by (simp add: connected_state_eq)
  have bad: "decode_error_of (audio_message odd_bytes (Some True)) = Some (JsError (Some ''DecodeError''))"
    by simp
  note inst = decode_error_rejects_handler[OF ctx bad, of 1]
  have step: "onmessage 1 (audio_message odd_bytes (Some True)) connected_state
              = (Rejected (JsError (Some ''DecodeError'')), connected_state\<lparr>nextStartTimeRef := 1\<rparr>)"
    using inst by (simp add: connected_state_eq)
  have later: "new_effects (snd (onmessage 1 (audio_message odd_bytes (Some True)) connected_state))
         (snd (onmessage 2 (audio_message three_samples None)
                (snd (onmessage 1 (audio_message odd_bytes (Some True)) connected_state))))
       = [SourceStart 2 2]"
    using inst[THEN conjunct2, THEN conjunct2, rule_format,
        of "audio_message three_samples None" "silence 3" 2]
    by (simp add: connected_state_eq)
  show ?thesis using step later by (simp add: connected_state_eq)
qed

text \<open>
  C7 as stated fails: the handler does not take the decode error and log it. Its promise
  rejects with the error, and it has made no call of \<^verbatim>\<open>console\<close>.
\<close>

theorem undecodable_payload_not_logged_counterexample:
  "decode_error_of (audio_message odd_bytes None) = Some (JsError (Some ''DecodeError''))
   \<and> fst (onmessage 1 (audio_message odd_bytes None) connected_state)
       = Rejected (JsError (Some ''DecodeError''))
   \<and> filter is_console
        (new_effects connected_state (snd (onmessage 1 (audio_message odd_bytes None) connected_state)))
       = []"
proof -
  have ctx: "outputAudioContextRef connected_state \<noteq> None" by (simp add: connected_state_eq)
  have bad: "decode_error_of (audio_message odd_bytes None) = Some (JsError (Some ''DecodeError''))"
    by simp
  show ?thesis
    by (simp add: onmessage_decode_error[OF ctx bad] new_effects_def)
qed

text \<open>
  C10 as it holds. A message that carries a chunk (a non-empty payload that decodes) and
  the interruption flag, handled while the output context exists: the chunk is started
  at the maximum of the cursor and the clock, then it and every source that was active
  are stopped, in the same call of the handler, which leaves the active set empty and
  the cursor at zero.
\<close>

theorem chunk_with_interruption:
  assumes ctx: "outputAudioContextRef st \<noteq> None" and chunk: "chunk_of msg = Some buf"
    and flag: "interrupted_of msg"
  shows "fst (onmessage t msg st) = Resolved
       \<and> new_effects st (snd (onmessage t msg st))
           = SourceStart (objectCount st) (max (nextStartTimeRef st) t) #
             map (\<lambda>s. SourceStop (source_id s))
               (set_add \<lparr>source_id = objectCount st, buffer = buf\<rparr> (sourcesRef st))
       \<and> SourceStop (objectCount st) \<in> set (new_effects st (snd (onmessage t msg st)))
       \<and> (\<forall>source \<in> set (sourcesRef st).
            SourceStop (source_id source) \<in> set (new_effects st (snd (onmessage t msg st))))
       \<and> sourcesRef (snd (onmessage t msg st)) = []
       \<and> nextStartTimeRef (snd (onmessage t msg st)) = 0"
proof -
  let ?new = "\<lparr>source_id = objectCount st, buffer = buf\<rparr>"
  have step: "onmessage t msg st =
           (Resolved,
            st\<lparr>nextStartTimeRef := 0, objectCount := objectCount st + 1,
               effects := effects st @
                 SourceStart (objectCount st) (max (nextStartTimeRef st) t) #
                 map (\<lambda>s. SourceStop (source_id s)) (set_add ?new (sourcesRef st)),
               sourcesRef := []\<rparr>)"
    by (rule onmessage_interrupted_chunk[OF ctx chunk flag])
  have eff: "new_effects st (snd (onmessage t msg st))
           = SourceStart (objectCount st) (max (nextStartTimeRef st) t) #
             map (\<lambda>s. SourceStop (source_id s)) (set_add ?new (sourcesRef st))"
    by (simp add: step)
  have own: "SourceStop (objectCount st) \<in> set (new_effects st (snd (onmessage t msg st)))"
    unfolding eff by (simp add: set_add_set image_iff)
  have others: "\<forall>source \<in> set (sourcesRef st).
            SourceStop (source_id source) \<in> set (new_effects st (snd (onmessage t msg st)))"
    unfolding eff by (simp add: set_add_set)
  show ?thesis using eff own others by (simp add: step)
qed

text \<open>C10, an instance: a chunk of four samples with the flag, while one chunk is playing.\<close>

theorem chunk_with_interruption_witness:
  "outputAudioContextRef playing_state = Some 1
   \<and> chunk_of (audio_message four_samples (Some True)) = Some (silence 4)
   \<and> interrupted_of (audio_message four_samples (Some True))
   \<and> new_effects playing_state (snd (onmessage 0 (audio_message four_samples (Some True)) playing_state))
       = [SourceStart 3 (1 / 8000), SourceStop 2, SourceStop 3]
   \<and> sourcesRef (snd (onmessage 0 (audio_message four_samples (Some True)) playing_state)) = []
   \<and> nextStartTimeRef (snd (onmessage 0 (audio_message four_samples (Some True)) playing_state)) = 0"
proof -
  have ctx: "outputAudioContextRef playing_state \<noteq> None" by (simp add: playing_state_eq)
  have chunk: "chunk_of (audio_message four_samples (Some True)) = Some (silence 4)" by simp
  have flag: "interrupted_of (audio_message four_samples (Some True))" by simp
  note inst = chunk_with_interruption[OF ctx chunk flag, of 0]
  have eff: "new_effects playing_state (snd (onmessage 0 (audio_message four_samples (Some True)) playing_state))
       = [SourceStart 3 (1 / 8000), SourceStop 2, SourceStop 3]"
    using inst by (simp add: playing_state_eq set_add_def)
  show ?thesis using inst eff by (simp add: playing_state_eq)
qed

text \<open>
  C10 as stated fails: the message carries a payload and the flag, the payload is not
  base64, and the handler rejects: no chunk is scheduled, and the active set and the
  cursor stay as they were.
\<close>

theorem chunk_with_interruption_undecodable_counterexample:
  "base64Audio_of (audio_message not_base64 (Some True)) = Inr (Some not_base64)
   \<and> interrupted_of (audio_message not_base64 (Some True))
   \<and> fst (onmessage 2 (audio_message not_base64 (Some True)) playing_state)
       = Rejected (JsError (Some ''InvalidCharacterError''))
   \<and> start_times (new_effects playing_state
                     (snd (onmessage 2 (audio_message not_base64 (Some True)) playing_state))) = []
   \<and> sourcesRef (snd (onmessage 2 (audio_message not_base64 (Some True)) playing_state)) \<noteq> []
   \<and> nextStartTimeRef (snd (onmessage 2 (audio_message not_base64 (Some True)) playing_state)) \<noteq> 0"
proof -
  have ctx: "outputAudioContextRef playing_state \<noteq> None" by (simp add: playing_state_eq)
  have bad: "decode_error_of (audio_message not_base64 (Some True))
             = Some (JsError (Some ''InvalidCharacterError''))"
    by simp
  show ?thesis
    by (simp add: onmessage_decode_error[OF ctx bad] new_effects_def) (simp add: playing_state_eq)
qed

subsection \<open>disconnect\<close>

lemma cleanup_new_effects:
  "new_effects st (cleanup st) = release_calls st @ [OnConnectionStateChange False]"
  by (simp add: cleanup_eq)

lemma release_calls_members:
  shows "videoIntervalRef st = Some t \<Longrightarrow> t \<noteq> 0 \<Longrightarrow> ClearInterval t \<in> set (release_calls st)"
    and "sessionRef st = Some s \<Longrightarrow> SessionClose s \<in> set (release_calls st)"
    and "source \<in> set (sourcesRef st) \<Longrightarrow> SourceStop (source_id source) \<in> set (release_calls st)"
    and "mediaStreamRef st = Some stream \<Longrightarrow> track \<in> set stream \<Longrightarrow> TrackStop track \<in> set (release_calls st)"
    and "inputAudioContextRef st = Some c \<Longrightarrow> ContextClose c \<in> set (release_calls st)"
    and "outputAudioContextRef st = Some c \<Longrightarrow> ContextClose c \<in> set (release_calls st)"
  by (auto simp: release_calls_def)

lemma release_calls_idle:
  assumes "videoIntervalRef st = None" "sessionRef st = None" "sourcesRef st = []"
    "mediaStreamRef st = None" "inputAudioContextRef st = None" "outputAudioContextRef st = None"
  shows "release_calls st = []"
  using assms by (simp add: release_calls_def)

text \<open>
  C3. From every state whose timer id, if one is held, is not zero (the ids of
  \<^verbatim>\<open>setInterval\<close> are positive): after \<open>cleanup\<close>, returned as \<^verbatim>\<open>disconnect\<close>, the timer
  ref, the session ref, the stream ref and both context refs are empty and the active
  set is empty; the timer that was held has been cleared, the session closed, every
  active source stopped, every track of the stream stopped and both contexts closed.
  A second call right after makes no call but the notification to the shell and changes
  no ref; so does a first call on a hook that holds nothing. No step can fail on a
  missing resource, since each dereference is under its guard in \<open>cleanup\<close>.
\<close>

theorem disconnect_idempotent:
  assumes timer: "videoIntervalRef st \<noteq> Some 0"
  shows "videoIntervalRef (cleanup st) = None \<and> sessionRef (cleanup st) = None
       \<and> sourcesRef (cleanup st) = [] \<and> mediaStreamRef (cleanup st) = None
       \<and> inputAudioContextRef (cleanup st) = None \<and> outputAudioContextRef (cleanup st) = None
       \<and> (\<forall>t. videoIntervalRef st = Some t \<longrightarrow> ClearInterval t \<in> set (new_effects st (cleanup st)))
       \<and> (\<forall>s. sessionRef st = Some s \<longrightarrow> SessionClose s \<in> set (new_effects st (cleanup st)))
       \<and> (\<forall>source \<in> set (sourcesRef st).
            SourceStop (source_id source) \<in> set (new_effects st (cleanup st)))
       \<and> (\<forall>stream. mediaStreamRef st = Some stream \<longrightarrow>
            (\<forall>track \<in> set stream. TrackStop track \<in> set (new_effects st (cleanup st))))
       \<and> (\<forall>c. inputAudioContextRef st = Some c \<or> outputAudioContextRef st = Some c \<longrightarrow>
            ContextClose c \<in> set (new_effects st (cleanup st)))
       \<and> cleanup (cleanup st) = emit [OnConnectionStateChange False] (cleanup st)
       \<and> new_effects (cleanup st) (cleanup (cleanup st)) = [OnConnectionStateChange False]
       \<and> (videoIntervalRef st = None \<and> sessionRef st = None \<and> sourcesRef st = []
            \<and> mediaStreamRef st = None \<and> inputAudioContextRef st = None
            \<and> outputAudioContextRef st = None \<longrightarrow>
            new_effects st (cleanup st) = [OnConnectionStateChange False])"
proof -
  have refs: "videoIntervalRef (cleanup st) = None \<and> sessionRef (cleanup st) = None
       \<and> sourcesRef (cleanup st) = [] \<and> mediaStreamRef (cleanup st) = None
       \<and> inputAudioContextRef (cleanup st) = None \<and> outputAudioContextRef (cleanup st) = None"
    using timer by (simp add: cleanup_eq)
  have t: "\<forall>t. videoIntervalRef st = Some t \<longrightarrow> ClearInterval t \<in> set (new_effects st (cleanup st))"
    using timer release_calls_members(1)[of st] by (auto simp: cleanup_new_effects)
  have s: "\<forall>s. sessionRef st = Some s \<longrightarrow> SessionClose s \<in> set (new_effects st (cleanup st))"
    using release_calls_members(2)[of st] by (auto simp: cleanup_new_effects)
  have src: "\<forall>source \<in> set (sourcesRef st).
            SourceStop (source_id source) \<in> set (new_effects st (cleanup st))"
    using release_calls_members(3)[of _ st] by (auto simp: cleanup_new_effects)
  have tr: "\<forall>stream. mediaStreamRef st = Some stream \<longrightarrow>
            (\<forall>track \<in> set stream. TrackStop track \<in> set (new_effects st (cleanup st)))"
    using release_calls_members(4)[of st] by (auto simp: cleanup_new_effects)
  have cx: "\<forall>c. inputAudioContextRef st = Some c \<or> outputAudioContextRef st = Some c \<longrightarrow>
            ContextClose c \<in> set (new_effects st (cleanup st))"
    using release_calls_members(5,6)[of st] by (auto simp: cleanup_new_effects)
  have twice: "cleanup (cleanup st) = emit [OnConnectionStateChange False] (cleanup st)"
    by (rule cleanup_twice)
  have twice': "new_effects (cleanup st) (cleanup (cleanup st)) = [OnConnectionStateChange False]"
    by (simp add: cleanup_new_effects release_calls_cleanup)
  have idle: "videoIntervalRef st = None \<and> sessionRef st = None \<and> sourcesRef st = []
            \<and> mediaStreamRef st = None \<and> inputAudioContextRef st = None
            \<and> outputAudioContextRef st = None \<longrightarrow>
            new_effects st (cleanup st) = [OnConnectionStateChange False]"
    by (simp add: cleanup_new_effects release_calls_idle)
  show ?thesis using refs t s src tr cx twice twice' idle by blast
qed

lemma release_calls_playing_state:
  "release_calls playing_state =
     [ClearInterval 7, SessionClose 3, SourceStop 2, TrackStop 11, ContextClose 0, ContextClose 1]"
  by (simp add: release_calls_def playing_state_eq)

text \<open>
  C3, an instance: disconnect twice while a chunk is playing, and on the hook as it is
  before any connect.
\<close>

theorem disconnect_idempotent_witness:
  "videoIntervalRef playing_state = Some 7
   \<and> new_effects playing_state (cleanup playing_state)
       = [ClearInterval 7, SessionClose 3, SourceStop 2, TrackStop 11, ContextClose 0,
          ContextClose 1, OnConnectionStateChange False]
   \<and> mediaStreamRef (cleanup playing_state) = None
   \<and> sessionRef (cleanup playing_state) = None
   \<and> sourcesRef (cleanup playing_state) = []
   \<and> videoIntervalRef (cleanup playing_state) = None
   \<and> new_effects (cleanup playing_state) (cleanup (cleanup playing_state))
       = [OnConnectionStateChange False]
   \<and> videoIntervalRef (initial_state True) = None
   \<and> new_effects (initial_state True) (cleanup (initial_state True)) = [OnConnectionStateChange False]"
proof -
  have h: "videoIntervalRef playing_state \<noteq> Some 0" by (simp add: playing_state_eq)
  have h0: "videoIntervalRef (initial_state True) \<noteq> Some 0" by (simp add: initial_state_def)
  note a = disconnect_idempotent[OF h]
  note b = disconnect_idempotent[OF h0]
  have eff: "new_effects playing_state (cleanup playing_state)
       = [ClearInterval 7, SessionClose 3, SourceStop 2, TrackStop 11, ContextClose 0,
          ContextClose 1, OnConnectionStateChange False]"
    by (simp add: cleanup_new_effects release_calls_playing_state)
  have idle: "new_effects (initial_state True) (cleanup (initial_state True)) = [OnConnectionStateChange False]"
    using b by (simp add: initial_state_def)
  have v: "videoIntervalRef playing_state = Some 7" by (simp add: playing_state_eq)
  have v0: "videoIntervalRef (initial_state True) = None" by (simp add: initial_state_def)
  from a have refs: "mediaStreamRef (cleanup playing_state) = None"
      "sessionRef (cleanup playing_state) = None" "sourcesRef (cleanup playing_state) = []"
      "videoIntervalRef (cleanup playing_state) = None"
    by blast+
  from a have again: "new_effects (cleanup playing_state) (cleanup (cleanup playing_state))
       = [OnConnectionStateChange False]"
    by blast
  show ?thesis using v v0 eff refs again idle by simp
qed

subsection \<open>sendMessage\<close>

text \<open>
  C6. With no session held, \<open>sendMessage\<close> returns the state it was given: nothing is
  sent, nothing is kept for later, and the model has no throwing branch, the call being
  under the guard. With a session held, it makes one call of \<^verbatim>\<open>sendRealtimeInput\<close> on
  that session, with one text part that is the string, and changes nothing else.
\<close>

theorem sendMessage_guarded:
  "(sessionRef st = None \<longrightarrow> sendMessage text st = st)
   \<and> (\<forall>session. sessionRef st = Some session \<longrightarrow>
         sendMessage text st = st\<lparr>effects := effects st @ [SendRealtimeInput session (Content [text])]\<rparr>
         \<and> sent (new_effects st (sendMessage text st)) = [(session, Content [text])])"
  by (simp add: sendMessage_def emit_def)

text \<open>C6, two instances: before any connect, and on the connected hook.\<close>

theorem sendMessage_guarded_witness:
  "sessionRef (initial_state True) = None
   \<and> sendMessage ''hello'' (initial_state True) = initial_state True
   \<and> sessionRef connected_state = Some 3
   \<and> sent (new_effects connected_state (sendMessage ''hello'' connected_state))
       = [(3, Content [''hello''])]"
proof -
  have n: "sessionRef (initial_state True) = None" by (simp add: initial_state_def)
  have s: "sessionRef connected_state = Some 3" by (simp add: connected_state_eq)
  from sendMessage_guarded[of "initial_state True" "''hello''"] n
  have a: "sendMessage ''hello'' (initial_state True) = initial_state True" by simp
  from sendMessage_guarded[of connected_state "''hello''"] s
  have b: "sent (new_effects connected_state (sendMessage ''hello'' connected_state))
       = [(3, Content [''hello''])]" by simp
  show ?thesis using n s a b by simp
qed

subsection \<open>connect that fails\<close>

lemma precedes_append_Cons: "b \<in> set ys \<Longrightarrow> precedes a b (xs @ a # ys)"
  by (induction xs) simp_all

lemma precedes_set: "precedes a b xs \<Longrightarrow> a \<in> set xs \<and> b \<in> set xs"
  by (induction xs) auto

text \<open>The three ways the body of the \<^verbatim>\<open>try\<close> throws, and the state each leaves.\<close>

lemma connect_try_Some:
  assumes "connect_try env st = (Some err, st1)"
  shows "(\<not> truthy (API_KEY env) \<and> err = JsError (Some ''API Key is missing'') \<and> st1 = st)
       \<or> (truthy (API_KEY env) \<and> getUserMedia env = Inl err
            \<and> st1 = st\<lparr>inputAudioContextRef := Some (objectCount st),
                        outputAudioContextRef := Some (objectCount st + 1),
                        objectCount := objectCount st + 2,
                        effects := effects st @
                          [NewAudioContext (objectCount st) INPUT_SAMPLE_RATE,
                           NewAudioContext (objectCount st + 1) OUTPUT_SAMPLE_RATE, GetUserMedia]\<rparr>)
       \<or> (\<exists>stream. truthy (API_KEY env) \<and> getUserMedia env = Inr stream \<and> liveConnect env = Inl err
            \<and> st1 = st\<lparr>inputAudioContextRef := Some (objectCount st),
                        outputAudioContextRef := Some (objectCount st + 1),
                        mediaStreamRef := Some stream,
                        objectCount := objectCount st + 2,
                        effects := effects st @
                          [NewAudioContext (objectCount st) INPUT_SAMPLE_RATE,
                           NewAudioContext (objectCount st + 1) OUTPUT_SAMPLE_RATE, GetUserMedia]\<rparr>)"
  using assms
  by (cases "getUserMedia env"; cases "liveConnect env")
     (auto simp: connect_try_def Let_def emit_def split: if_splits)

lemma connect_try_Some_facts:
  assumes "connect_try env st = (Some err, st1)"
  shows "onError_given st1 = onError_given st"
    and "\<exists>acq. effects st1 = effects st @ acq \<and> set acq \<subseteq>
            {NewAudioContext (objectCount st) INPUT_SAMPLE_RATE,
             NewAudioContext (objectCount st + 1) OUTPUT_SAMPLE_RATE, GetUserMedia}"
  using connect_try_Some[OF assms] by auto

lemma connect_failed:
  assumes "connect_try env st = (Some err, st1)"
  shows "connect env st =
           cleanup (st1\<lparr>error := Some (or_else (message err) ''Failed to start session''),
                       effects := effects st1 @ ConsoleError err #
                         (if onError_given st then [OnError (or_else (message err) ''Failed to start session'')]
                          else [])\<rparr>)"
  using connect_try_Some_facts(1)[OF assms]
  by (cases st1; cases "onError_given st") (simp_all add: connect_def assms Let_def emit_def)

lemma release_calls_error_effects:
  "release_calls (st\<lparr>error := e, effects := es\<rparr>) = release_calls st"
  by (simp add: release_calls_def)

text \<open>The calls a failed connect adds, in order.\<close>

lemma connect_failed_effects:
  assumes fail: "connect_try env st = (Some err, st1)"
  shows "\<exists>acq. effects st1 = effects st @ acq
           \<and> set acq \<subseteq> {NewAudioContext (objectCount st) INPUT_SAMPLE_RATE,
                          NewAudioContext (objectCount st + 1) OUTPUT_SAMPLE_RATE, GetUserMedia}
           \<and> new_effects st (connect env st)
               = acq @ ConsoleError err #
                 (if onError_given st then [OnError (or_else (message err) ''Failed to start session'')]
                  else [])
                 @ release_calls st1 @ [OnConnectionStateChange False]"
proof -
  from connect_try_Some_facts(2)[OF fail] obtain acq where acq: "effects st1 = effects st @ acq"
      "set acq \<subseteq> {NewAudioContext (objectCount st) INPUT_SAMPLE_RATE,
                   NewAudioContext (objectCount st + 1) OUTPUT_SAMPLE_RATE, GetUserMedia}"
    by blast
  let ?m = "or_else (message err) ''Failed to start session''"
  let ?st2 = "st1\<lparr>error := Some ?m,
                 effects := effects st1 @ ConsoleError err # (if onError_given st then [OnError ?m] else [])\<rparr>"
  have "effects (connect env st) = effects ?st2 @ release_calls ?st2 @ [OnConnectionStateChange False]"
    unfolding connect_failed[OF fail] by (simp add: cleanup_eq)
  then have "effects (connect env st)
      = effects st @ (acq @ ConsoleError err # (if onError_given st then [OnError ?m] else [])
          @ release_calls st1 @ [OnConnectionStateChange False])"
    by (simp add: release_calls_error_effects acq)
  then have "new_effects st (connect env st)
      = acq @ ConsoleError err # (if onError_given st then [OnError ?m] else [])
          @ release_calls st1 @ [OnConnectionStateChange False]"
    by (rule new_effects_append)
  then show ?thesis using acq by blast
qed

lemma precedes_append:
  "precedes a b (xs @ ys) \<longleftrightarrow> precedes a b xs \<or> (a \<in> set xs \<and> b \<in> set ys) \<or> precedes a b ys"
  by (induction xs) auto

lemma release_calls_kinds:
  "OnError m \<notin> set (release_calls st)" "GetUserMedia \<notin> set (release_calls st)"
  "NewAudioContext c rate \<notin> set (release_calls st)"
  by (auto simp: release_calls_def split: option.splits if_splits)

text \<open>
  C4 as it holds. For every connect that fails (the credential is missing, or
  \<^verbatim>\<open>getUserMedia\<close> rejects, or the handshake rejects): the \<^verbatim>\<open>catch\<close> logs the error, stores
  its message, passes the message to \<^verbatim>\<open>onError\<close> when that prop is given, and only then
  calls \<open>cleanup\<close>. So when connect is done, both contexts the attempt created are
  closed, every track of the stream it obtained is stopped and the refs are empty; each
  of these releases comes after the call of \<^verbatim>\<open>onError\<close>, and none comes before it.
\<close>

theorem failed_connect_releases_after_error:
  assumes fail: "connect_try env st = (Some err, st1)"
  shows "(\<not> truthy (API_KEY env) \<or> getUserMedia env = Inl err \<or> liveConnect env = Inl err)
       \<and> error (connect env st) = Some (or_else (message err) ''Failed to start session'')
       \<and> inputAudioContextRef (connect env st) = None
       \<and> outputAudioContextRef (connect env st) = None
       \<and> mediaStreamRef (connect env st) = None
       \<and> sessionRef (connect env st) = None
       \<and> (truthy (API_KEY env) \<longrightarrow>
            inputAudioContextRef st1 = Some (objectCount st)
            \<and> outputAudioContextRef st1 = Some (objectCount st + 1))
       \<and> (\<forall>stream. truthy (API_KEY env) \<and> getUserMedia env = Inr stream \<longrightarrow>
            mediaStreamRef st1 = Some stream)
       \<and> (\<forall>c. inputAudioContextRef st1 = Some c \<or> outputAudioContextRef st1 = Some c \<longrightarrow>
            ContextClose c \<in> set (new_effects st (connect env st))
            \<and> (onError_given st \<longrightarrow>
                 precedes (OnError (or_else (message err) ''Failed to start session''))
                   (ContextClose c) (new_effects st (connect env st))))
       \<and> (\<forall>stream track. mediaStreamRef st1 = Some stream \<and> track \<in> set stream \<longrightarrow>
            TrackStop track \<in> set (new_effects st (connect env st))
            \<and> (onError_given st \<longrightarrow>
                 precedes (OnError (or_else (message err) ''Failed to start session''))
                   (TrackStop track) (new_effects st (connect env st))))
       \<and> (\<forall>c. \<not> precedes (ContextClose c)
                  (OnError (or_else (message err) ''Failed to start session''))
                  (new_effects st (connect env st)))
       \<and> (\<forall>track. \<not> precedes (TrackStop track)
                  (OnError (or_else (message err) ''Failed to start session''))
                  (new_effects st (connect env st)))"
proof -
  let ?m = "or_else (message err) ''Failed to start session''"
  let ?new = "new_effects st (connect env st)"
  let ?on = "if onError_given st then [OnError ?m] else []"
  from connect_failed_effects[OF fail] obtain acq where
      acq: "set acq \<subseteq> {NewAudioContext (objectCount st) INPUT_SAMPLE_RATE,
                         NewAudioContext (objectCount st + 1) OUTPUT_SAMPLE_RATE, GetUserMedia}"
      and new: "?new = acq @ ConsoleError err # ?on @ release_calls st1 @ [OnConnectionStateChange False]"
    by blast
  note shape = connect_try_Some[OF fail]
  have why: "\<not> truthy (API_KEY env) \<or> getUserMedia env = Inl err \<or> liveConnect env = Inl err"
    using shape by blast
  have after: "error (connect env st) = Some ?m
       \<and> inputAudioContextRef (connect env st) = None
       \<and> outputAudioContextRef (connect env st) = None
       \<and> mediaStreamRef (connect env st) = None
       \<and> sessionRef (connect env st) = None"
    unfolding connect_failed[OF fail] by (simp add: cleanup_eq)
  have got_ctx: "truthy (API_KEY env) \<longrightarrow>
            inputAudioContextRef st1 = Some (objectCount st)
            \<and> outputAudioContextRef st1 = Some (objectCount st + 1)"
    using shape by auto
  have got_stream: "\<forall>stream. truthy (API_KEY env) \<and> getUserMedia env = Inr stream \<longrightarrow>
            mediaStreamRef st1 = Some stream"
    using shape by auto
  have in_new: "x \<in> set (release_calls st1) \<Longrightarrow> x \<in> set ?new" for x
    unfolding new by simp
  have after_error: "x \<in> set (release_calls st1) \<Longrightarrow> onError_given st \<Longrightarrow>
      precedes (OnError ?m) x ?new" for x
  proof -
    assume x: "x \<in> set (release_calls st1)" and given: "onError_given st"
    have "?new = (acq @ [ConsoleError err]) @ OnError ?m # (release_calls st1 @ [OnConnectionStateChange False])"
      unfolding new using given by simp
    moreover have "x \<in> set (release_calls st1 @ [OnConnectionStateChange False])" using x by simp
    ultimately show "precedes (OnError ?m) x ?new"
      using precedes_append_Cons by metis
  qed
  have ctxs: "\<forall>c. inputAudioContextRef st1 = Some c \<or> outputAudioContextRef st1 = Some c \<longrightarrow>
            ContextClose c \<in> set ?new \<and> (onError_given st \<longrightarrow> precedes (OnError ?m) (ContextClose c) ?new)"
    using release_calls_members(5,6)[of st1] in_new after_error by blast
  have tracks: "\<forall>stream track. mediaStreamRef st1 = Some stream \<and> track \<in> set stream \<longrightarrow>
            TrackStop track \<in> set ?new \<and> (onError_given st \<longrightarrow> precedes (OnError ?m) (TrackStop track) ?new)"
    using release_calls_members(4)[of st1] in_new after_error by blast
  have not_before: "\<not> precedes x (OnError ?m) ?new"
    if x: "x \<notin> set acq" "x \<noteq> ConsoleError err" "x \<noteq> OnError ?m" for x
  proof -
    have no_on: "OnError ?m \<notin> set (release_calls st1)" by (rule release_calls_kinds)
    have "\<not> precedes x (OnError ?m) acq" using x(1) precedes_set by metis
    moreover have "\<not> precedes x (OnError ?m) (release_calls st1)" using no_on precedes_set by metis
    ultimately show ?thesis
      unfolding new using x no_on
      by (cases "onError_given st") (simp_all add: precedes_append)
  qed
  have ctx_not_before: "\<forall>c. \<not> precedes (ContextClose c) (OnError ?m) ?new"
    using acq by (intro allI not_before) auto
  have track_not_before: "\<forall>track. \<not> precedes (TrackStop track) (OnError ?m) ?new"
    using acq by (intro allI not_before) auto
  show ?thesis
    using why after got_ctx got_stream ctxs tracks ctx_not_before track_not_before by blast
qed

lemma connect_try_refused:
  "connect_try refused_env (initial_state True) =
     (Some (JsError None),
      (initial_state True)\<lparr>inputAudioContextRef := Some 0, outputAudioContextRef := Some 1,
         mediaStreamRef := Some [11], objectCount := 2,
         effects := [NewAudioContext 0 16000, NewAudioContext 1 24000, GetUserMedia]\<rparr>)"
  by (simp add: connect_try_def refused_env_def initial_state_def truthy_def emit_def Let_def
      INPUT_SAMPLE_RATE_def OUTPUT_SAMPLE_RATE_def)

lemma connect_try_denied:
  "connect_try denied_env (initial_state True) =
     (Some (JsError (Some ''Permission denied'')),
      (initial_state True)\<lparr>inputAudioContextRef := Some 0, outputAudioContextRef := Some 1,
         objectCount := 2,
         effects := [NewAudioContext 0 16000, NewAudioContext 1 24000, GetUserMedia]\<rparr>)"
  by (simp add: connect_try_def denied_env_def initial_state_def truthy_def emit_def Let_def
      INPUT_SAMPLE_RATE_def OUTPUT_SAMPLE_RATE_def)

lemma connect_denied_effects:
  "new_effects (initial_state True) (connect denied_env (initial_state True)) =
     [NewAudioContext 0 16000, NewAudioContext 1 24000, GetUserMedia,
      ConsoleError (JsError (Some ''Permission denied'')), OnError ''Permission denied'',
      ContextClose 0, ContextClose 1, OnConnectionStateChange False]"
  unfolding connect_failed[OF connect_try_denied]
  by (simp add: cleanup_eq release_calls_def new_effects_def or_else_def initial_state_def)

lemma connect_refused_effects:
  "new_effects (initial_state True) (connect refused_env (initial_state True)) =
     [NewAudioContext 0 16000, NewAudioContext 1 24000, GetUserMedia,
      ConsoleError (JsError None), OnError ''Failed to start session'',
      TrackStop 11, ContextClose 0, ContextClose 1, OnConnectionStateChange False]"
  unfolding connect_failed[OF connect_try_refused]
  by (simp add: cleanup_eq release_calls_def new_effects_def or_else_def initial_state_def)

text \<open>C4, an instance: the handshake is rejected after the microphone was granted.\<close>

theorem failed_connect_releases_after_error_witness:
  "fst (connect_try refused_env (initial_state True)) = Some (JsError None)
   \<and> liveConnect refused_env = Inl (JsError None)
   \<and> error (connect refused_env (initial_state True)) = Some ''Failed to start session''
   \<and> mediaStreamRef (connect refused_env (initial_state True)) = None
   \<and> inputAudioContextRef (connect refused_env (initial_state True)) = None
   \<and> outputAudioContextRef (connect refused_env (initial_state True)) = None
   \<and> precedes (OnError ''Failed to start session'') (TrackStop 11)
        (new_effects (initial_state True) (connect refused_env (initial_state True)))
   \<and> precedes (OnError ''Failed to start session'') (ContextClose 0)
        (new_effects (initial_state True) (connect refused_env (initial_state True)))
   \<and> precedes (OnError ''Failed to start session'') (ContextClose 1)
        (new_effects (initial_state True) (connect refused_env (initial_state True)))
   \<and> new_effects (initial_state True) (connect refused_env (initial_state True)) =
       [NewAudioContext 0 16000, NewAudioContext 1 24000, GetUserMedia,
        ConsoleError (JsError None), OnError ''Failed to start session'',
        TrackStop 11, ContextClose 0, ContextClose 1, OnConnectionStateChange False]"
proof -
  note inst = failed_connect_releases_after_error[OF connect_try_refused]
  have m: "or_else (message (JsError None)) ''Failed to start session'' = ''Failed to start session''"
    by (simp add: or_else_def)
  have given: "onError_given (initial_state True)" by (simp add: initial_state_def)
  have a: "error (connect refused_env (initial_state True)) = Some ''Failed to start session''"
      "mediaStreamRef (connect refused_env (initial_state True)) = None"
      "inputAudioContextRef (connect refused_env (initial_state True)) = None"
      "outputAudioContextRef (connect refused_env (initial_state True)) = None"
    using inst m by simp_all
  have t: "precedes (OnError ''Failed to start session'') (TrackStop 11)
        (new_effects (initial_state True) (connect refused_env (initial_state True)))"
    using inst given m by simp
  have c0: "precedes (OnError ''Failed to start session'') (ContextClose 0)
        (new_effects (initial_state True) (connect refused_env (initial_state True)))"
    using inst given m by simp
  have c1: "precedes (OnError ''Failed to start session'') (ContextClose 1)
        (new_effects (initial_state True) (connect refused_env (initial_state True)))"
    using inst given m by simp
  show ?thesis
    using a t c0 c1 connect_refused_effects
    by (simp add: connect_try_refused) (simp add: refused_env_def)
qed

text \<open>
  C4 as stated fails: permission for the microphone is denied after both contexts were
  created. The error callback is called first; the two contexts are closed after it, not
  before.
\<close>

theorem release_before_error_counterexample:
  "fst (connect_try denied_env (initial_state True)) = Some (JsError (Some ''Permission denied''))
   \<and> new_effects (initial_state True) (connect denied_env (initial_state True)) =
       [NewAudioContext 0 16000, NewAudioContext 1 24000, GetUserMedia,
        ConsoleError (JsError (Some ''Permission denied'')), OnError ''Permission denied'',
        ContextClose 0, ContextClose 1, OnConnectionStateChange False]
   \<and> \<not> precedes (ContextClose 0) (OnError ''Permission denied'')
          (new_effects (initial_state True) (connect denied_env (initial_state True)))
   \<and> \<not> precedes (ContextClose 1) (OnError ''Permission denied'')
          (new_effects (initial_state True) (connect denied_env (initial_state True)))"
  by (simp add: connect_denied_effects connect_try_denied)

text \<open>
  C5. For every connect made while \<^verbatim>\<open>process.env.API_KEY\<close> is undefined or empty, from any
  state: the body throws "API Key is missing" at its first statement; the message is
  stored in \<open>error\<close> and passed to \<^verbatim>\<open>onError\<close> when that prop is given; \<^verbatim>\<open>getUserMedia\<close> is
  not called and no audio context is created; afterwards no stream and no context is
  held. From the hook as it is before any connect the only calls are the log, the error
  callback and the notification of \<open>cleanup\<close>.
\<close>

theorem connect_without_credential:
  assumes nokey: "\<not> truthy (API_KEY env)"
  shows "fst (connect_try env st) = Some (JsError (Some ''API Key is missing''))
       \<and> error (connect env st) = Some ''API Key is missing''
       \<and> (onError_given st \<longrightarrow>
            OnError ''API Key is missing'' \<in> set (new_effects st (connect env st)))
       \<and> GetUserMedia \<notin> set (new_effects st (connect env st))
       \<and> (\<forall>c rate. NewAudioContext c rate \<notin> set (new_effects st (connect env st)))
       \<and> mediaStreamRef (connect env st) = None
       \<and> inputAudioContextRef (connect env st) = None
       \<and> outputAudioContextRef (connect env st) = None
       \<and> objectCount (connect env st) = objectCount st
       \<and> new_effects (initial_state True) (connect env (initial_state True))
           = [ConsoleError (JsError (Some ''API Key is missing'')), OnError ''API Key is missing'',
              OnConnectionStateChange False]"
proof -
  let ?err = "JsError (Some ''API Key is missing'')"
  have thrown: "connect_try env s = (Some ?err, s)" for s
    using nokey by (simp add: connect_try_def)
  have m: "or_else (message ?err) ''Failed to start session'' = ''API Key is missing''"
    by (simp add: or_else_def)
  have r: "error (connect env st) = Some ''API Key is missing''
       \<and> mediaStreamRef (connect env st) = None
       \<and> inputAudioContextRef (connect env st) = None
       \<and> outputAudioContextRef (connect env st) = None"
    unfolding connect_failed[OF thrown] m by (simp add: cleanup_eq)
  from connect_failed_effects[OF thrown, of st, unfolded m] obtain acq where
      acq: "effects st = effects st @ acq"
      and new: "new_effects st (connect env st)
                = acq @ ConsoleError ?err # (if onError_given st then [OnError ''API Key is missing''] else [])
                  @ release_calls st @ [OnConnectionStateChange False]"
    by blast
  from acq have nil: "acq = []" by simp
  have on: "onError_given st \<longrightarrow> OnError ''API Key is missing'' \<in> set (new_effects st (connect env st))"
    unfolding new by simp
  have no_gum: "GetUserMedia \<notin> set (new_effects st (connect env st))"
    unfolding new nil using release_calls_kinds(2)[of st] by simp
  have no_ctx: "\<forall>c rate. NewAudioContext c rate \<notin> set (new_effects st (connect env st))"
    unfolding new nil using release_calls_kinds(3)[of _ _ st] by simp
  have count: "objectCount (connect env st) = objectCount st"
    unfolding connect_failed[OF thrown] by (simp add: cleanup_eq)
  have idle: "new_effects (initial_state True) (connect env (initial_state True))
           = [ConsoleError ?err, OnError ''API Key is missing'', OnConnectionStateChange False]"
    unfolding connect_failed[OF thrown] m
    by (simp add: cleanup_eq release_calls_def new_effects_def initial_state_def)
  show ?thesis using thrown[of st] r on no_gum no_ctx count idle by simp
qed

text \<open>C5, two instances: the credential is undefined; the credential is the empty string.\<close>

theorem connect_without_credential_witness:
  "\<not> truthy (API_KEY keyless_env)
   \<and> \<not> truthy (API_KEY (keyless_env\<lparr>API_KEY := Some ''''\<rparr>))
   \<and> error (connect keyless_env (initial_state True)) = Some ''API Key is missing''
   \<and> new_effects (initial_state True) (connect keyless_env (initial_state True))
       = [ConsoleError (JsError (Some ''API Key is missing'')), OnError ''API Key is missing'',
          OnConnectionStateChange False]
   \<and> GetUserMedia \<notin> set (new_effects playing_state
                             (connect (keyless_env\<lparr>API_KEY := Some ''''\<rparr>) playing_state))
   \<and> mediaStreamRef (connect (keyless_env\<lparr>API_KEY := Some ''''\<rparr>) playing_state) = None"
proof -
  have k1: "\<not> truthy (API_KEY keyless_env)" by (simp add: keyless_env_def truthy_def)
  have k2: "\<not> truthy (API_KEY (keyless_env\<lparr>API_KEY := Some ''''\<rparr>))" by (simp add: truthy_def)
  note a = connect_without_credential[OF k1, of "initial_state True"]
  note b = connect_without_credential[OF k2, of playing_state]
  show ?thesis using k1 k2 a b by simp
qed

subsection \<open>The other callbacks\<close>

text \<open>
  The transport-error callback has the order of the \<^verbatim>\<open>catch\<close> of connect: log, error
  callback, then \<open>cleanup\<close>.
\<close>

lemma onerror_effects:
  "new_effects st (onerror err st) =
     ConsoleError err # (if onError_given st then [OnError ''Connection Error''] else [])
     @ release_calls st @ [OnConnectionStateChange False]"
  by (cases "onError_given st")
     (simp_all add: onerror_def Let_def emit_def cleanup_eq release_calls_def new_effects_def)

text \<open>
  The close event that follows \<^verbatim>\<open>session.close()\<close> runs \<open>cleanup\<close> a second time: it finds
  nothing to release.
\<close>

lemma onclose_after_cleanup:
  "new_effects (cleanup st) (onclose (cleanup st)) =
     [ConsoleLog ''Gemini Live Session Closed'', OnConnectionStateChange False]"
  by (simp add: onclose_def emit_def cleanup_eq release_calls_def new_effects_def)

text \<open>The end of a chunk takes it out of the active set and leaves the cursor alone.\<close>

lemma onended_result:
  "set (sourcesRef (onended source st)) = set (sourcesRef st) - {source}"
  "nextStartTimeRef (onended source st) = nextStartTimeRef st"
  by (auto simp: onended_def)

subsection \<open>The mode switch\<close>

lemma getSystemInstructionForMode_registry:
  "getSystemInstructionForMode NARRATION = Some (systemInstruction (MODES ! 0))"
  "getSystemInstructionForMode WALKING_ASSIST = Some (systemInstruction (MODES ! 1))"
  "getSystemInstructionForMode OBJECT_FINDER = Some (systemInstruction (MODES ! 2))"
  "getSystemInstructionForMode DOCUMENT_READER = Some (systemInstruction (MODES ! 3))"
  "getSystemInstructionForMode TASK_GUIDANCE = Some (systemInstruction (MODES ! 4))"
  "getSystemInstructionForMode IDLE = None"
  by (simp_all add: getSystemInstructionForMode_def MODES_def)



lemma handleModeChange_live:
  "live (handleModeChange newMode app) =
     (case getSystemInstructionForMode newMode of
        Some instr \<Rightarrow>
          if isConnected (live app) \<and> instr \<noteq> [] then
            sendMessage (''System Update: User switched to '' @ mode_string newMode @ ''. '' @ instr) (live app)
          else live app
      | None \<Rightarrow> live app)"
  by (simp add: handleModeChange_def Let_def split: option.splits)





text \<open>
  \<open>IDLE\<close> is a member of the enum that the registry does not list and that no caller
  passes to \<open>handleModeChange\<close>; a call with it would send nothing.
\<close>

lemma handleModeChange_IDLE:
  "sent (new_effects (live app) (live (handleModeChange IDLE app))) = []"
  by (simp add: handleModeChange_live getSystemInstructionForMode_registry new_effects_def)

end
